theory Spec2Isabelle
  imports Complex_Main "HOL-Library.Sublist"
begin

section \<open>JavaScript values\<close>

text \<open>
  A JavaScript \<open>number\<close>: \<open>NaN\<close>, the two infinities, or a finite value. Finite values
  are reals: the service only compares the numbers it is given and tests them for
  integrality. Where the code computes with integers, or reads a 64-bit integer of the
  store into a number, the result is rounded to a double (\<open>nearest_double\<close> below).
  Strings are HOL strings: lists of 8-bit characters, read as the code points below 256.
\<close>

datatype jsnum = NaN | NegInf | Fin real | PosInf

text \<open>The relational operator \<open><\<close> on numbers: every comparison with \<open>NaN\<close> is false.\<close>

fun js_lt :: "jsnum \<Rightarrow> jsnum \<Rightarrow> bool" where
  "js_lt NaN _ = False"
| "js_lt _ NaN = False"
| "js_lt (Fin a) (Fin b) = (a < b)"
| "js_lt NegInf NegInf = False"
| "js_lt NegInf _ = True"
| "js_lt PosInf _ = False"
| "js_lt (Fin a) NegInf = False"
| "js_lt (Fin a) PosInf = True"

text \<open>\<open>a >= b\<close> and \<open>a <= b\<close> on numbers (again false as soon as one side is \<open>NaN\<close>).\<close>

definition js_le :: "jsnum \<Rightarrow> jsnum \<Rightarrow> bool" where
  "js_le a b = (a \<noteq> NaN \<and> b \<noteq> NaN \<and> \<not> js_lt b a)"

definition js_ge :: "jsnum \<Rightarrow> jsnum \<Rightarrow> bool" where
  "js_ge a b = js_le b a"

text \<open>\<open>Number.isInteger\<close>: finite and without fractional part.\<close>

fun isInteger :: "jsnum \<Rightarrow> bool" where
  "isInteger (Fin r) = (of_int \<lfloor>r\<rfloor> = r)"
| "isInteger _ = False"

text \<open>
  Rounding of an exact integer to the nearest double, ties to the even significand. A
  double has 53 significant bits: up to \<open>2^53\<close> in size every integer is a double, and
  an integer of \<open>53 + e\<close> bits is rounded to a multiple of \<open>2^e\<close>. \<open>bitlen\<close> is the number
  of bits of a natural number, \<open>round_nat\<close> rounds a size, \<open>nearest_double\<close> an integer
  of either sign. (What rounds to \<open>2^1024\<close> or beyond is an infinity as a number; see
  \<open>z_round\<close>.)
\<close>

fun bitlen :: "nat \<Rightarrow> nat" where
  "bitlen n = (if n = 0 then 0 else Suc (bitlen (n div 2)))"

declare bitlen.simps [simp del]

definition round_nat :: "nat \<Rightarrow> nat" where
  "round_nat m =
     (if m < 2 ^ 53 then m
      else
        (let q = 2 ^ (bitlen m - 53);
             lo = (m div q) * q;
             r = m mod q
         in if 2 * r < q then lo
            else if q < 2 * r then lo + q
            else if even (m div q) then lo
            else lo + q))"

definition nearest_double :: "int \<Rightarrow> int" where
  "nearest_double x =
     (if x < 0 then - int (round_nat (nat (- x))) else int (round_nat (nat x)))"

datatype jsval =
    JUndefined
  | JNull
  | JBool bool
  | JNum jsnum
  | JStr string
  | JObject "(string \<times> jsval) list"
  | JArray "jsval list"

text \<open>Truthiness (\<open>ToBoolean\<close>), as used by \<open>!x\<close>, \<open>x ? a : b\<close> and \<open>if (x)\<close>.\<close>

fun truthy_num :: "jsnum \<Rightarrow> bool" where
  "truthy_num NaN = False"
| "truthy_num (Fin r) = (r \<noteq> 0)"
| "truthy_num _ = True"

fun truthy :: "jsval \<Rightarrow> bool" where
  "truthy JUndefined = False"
| "truthy JNull = False"
| "truthy (JBool b) = b"
| "truthy (JNum n) = truthy_num n"
| "truthy (JStr s) = (s \<noteq> [])"
| "truthy (JObject kvs) = True"
| "truthy (JArray vs) = True"

text \<open>
  An object literal such as \<open>req.body\<close>: its own properties in order. Reading a property
  that is absent gives \<open>undefined\<close>.
\<close>

type_synonym jsobject = "(string \<times> jsval) list"

definition get_field :: "jsobject \<Rightarrow> string \<Rightarrow> jsval" where
  "get_field obj k = (case map_of obj k of None \<Rightarrow> JUndefined | Some v \<Rightarrow> v)"

text \<open>
  \<open>String.prototype.trim\<close>: white space and line terminators are removed at both ends.
  Below 256 these are TAB, LF, VT, FF, CR, SPACE and NBSP.
\<close>

definition is_ws :: "char \<Rightarrow> bool" where
  "is_ws c = (of_char c \<in> {9, 10, 11, 12, 13, 32, 160 :: nat})"

definition trim :: "string \<Rightarrow> string" where
  "trim s = rev (dropWhile is_ws (rev (dropWhile is_ws s)))"

text \<open>\<open>s.includes(sub)\<close>: \<open>sub\<close> occurs in \<open>s\<close> as a contiguous substring.\<close>

fun str_includes :: "string \<Rightarrow> string \<Rightarrow> bool" where
  "str_includes [] sub = (sub = [])"
| "str_includes (c # cs) sub = (prefix sub (c # cs) \<or> str_includes cs sub)"

section \<open>HTTP responses\<close>

text \<open>
  \<open>types/resource.types.ts\<close>. \<open>ResourceInput\<close> is
  \<open>Omit<Resource, 'id' | 'created_at' | 'updated_at'>\<close>, the business fields a client
  supplies; \<open>Resource\<close> adds the three columns the store assigns (the field \<open>id\<close> is written
  \<open>id'\<close>). A row read back from the table has all eight. Timestamps are read off a clock
  that counts seconds.
\<close>

record ResourceInput =
  name :: string
  description :: string
  category :: string
  price :: jsnum
  quantity :: jsnum

record Resource = ResourceInput +
  id' :: int
  created_at :: nat
  updated_at :: nat

text \<open>
  A row of a result set, as the driver hands it to JavaScript: the single column of
  \<open>SELECT last_insert_rowid() as id\<close>, or all columns of a row of \<open>resources\<close>.
  \<open>row_id\<close> is the property access \<open>.id\<close>. The store keeps an id as a 64-bit integer
  and the driver makes a number of it, the nearest double: \<open>js_row\<close> is a stored row as
  JavaScript receives it.
\<close>

datatype sqlrow = IdRow int | ResourceRow Resource

fun row_id :: "sqlrow \<Rightarrow> int" where
  "row_id (IdRow i) = i"
| "row_id (ResourceRow r) = id' r"

definition js_row :: "Resource \<Rightarrow> sqlrow" where
  "js_row r = ResourceRow (r\<lparr>id' := nearest_double (id' r)\<rparr>)"

text \<open>
  What a handler sends: the status code and the JSON envelope. A key whose value is
  \<open>undefined\<close> is not serialised, so an optional key is an \<open>option\<close>.
\<close>

datatype payload = NoData | One sqlrow | Many "sqlrow list"

record response =
  status :: nat
  success :: bool
  error :: "string option"
  errors :: "string list option"
  details :: "string option"
  message :: "string option"
  data :: payload

definition json :: "nat \<Rightarrow> bool \<Rightarrow> response" where
  "json st ok = \<lparr>status = st, success = ok, error = None, errors = None,
                 details = None, message = None, data = NoData\<rparr>"

text \<open>A middleware either answers the request itself or hands over with \<open>next()\<close>.\<close>

datatype mw_result = Next | Respond response

section \<open>Problem 5: validation middleware\<close>

text \<open>
  The three shapes of test the validators apply once a value is known to be there:
  \<^item> \<open>typeof v !== 'string' || v.trim().length === 0\<close>
  \<^item> \<open>typeof v !== 'number' || v < 0\<close>
  \<^item> \<open>typeof v !== 'number' || v < 0 || !Number.isInteger(v)\<close>
  The \<open>typeof\<close> test guards the method call and the comparison, so each is a case
  distinction on the value.
\<close>

definition not_nonempty_string :: "jsval \<Rightarrow> bool" where
  "not_nonempty_string v = (case v of JStr s \<Rightarrow> length (trim s) = 0 | _ \<Rightarrow> True)"

definition not_nonneg_number :: "jsval \<Rightarrow> bool" where
  "not_nonneg_number v = (case v of JNum n \<Rightarrow> js_lt n (Fin 0) | _ \<Rightarrow> True)"

definition not_nonneg_integer :: "jsval \<Rightarrow> bool" where
  "not_nonneg_integer v =
     (case v of JNum n \<Rightarrow> js_lt n (Fin 0) \<or> \<not> isInteger n | _ \<Rightarrow> True)"

text \<open>
  \<open>validateResource\<close>: the list \<open>errors\<close> after the five \<open>if\<close> statements, each of which
  pushes at most one message.
\<close>

definition validateResource_errors :: "jsobject \<Rightarrow> string list" where
  "validateResource_errors body =
     (let name = get_field body ''name'';
          description = get_field body ''description'';
          category = get_field body ''category'';
          price = get_field body ''price'';
          quantity = get_field body ''quantity'';
          errors = [];
          errors = (if \<not> truthy name \<or> not_nonempty_string name
                    then errors @ [''Name is required and must be a non-empty string'']
                    else errors);
          errors = (if \<not> truthy description \<or> not_nonempty_string description
                    then errors @ [''Description is required and must be a non-empty string'']
                    else errors);
          errors = (if \<not> truthy category \<or> not_nonempty_string category
                    then errors @ [''Category is required and must be a non-empty string'']
                    else errors);
          errors = (if price = JUndefined \<or> not_nonneg_number price
                    then errors @ [''Price is required and must be a non-negative number'']
                    else errors);
          errors = (if quantity = JUndefined \<or> not_nonneg_integer quantity
                    then errors @ [''Quantity is required and must be a non-negative integer'']
                    else errors)
      in errors)"

definition validateResource :: "jsobject \<Rightarrow> mw_result" where
  "validateResource body =
     (let errors = validateResource_errors body
      in if length errors > 0
         then Respond ((json 400 False)\<lparr>errors := Some errors\<rparr>)
         else Next)"

text \<open>\<open>validateResourceUpdate\<close>: a field is checked only when it is not \<open>undefined\<close>.\<close>

definition validateResourceUpdate_errors :: "jsobject \<Rightarrow> string list" where
  "validateResourceUpdate_errors body =
     (let name = get_field body ''name'';
          description = get_field body ''description'';
          category = get_field body ''category'';
          price = get_field body ''price'';
          quantity = get_field body ''quantity'';
          errors = [];
          errors = (if name \<noteq> JUndefined \<and> not_nonempty_string name
                    then errors @ [''Name must be a non-empty string'']
                    else errors);
          errors = (if description \<noteq> JUndefined \<and> not_nonempty_string description
                    then errors @ [''Description must be a non-empty string'']
                    else errors);
          errors = (if category \<noteq> JUndefined \<and> not_nonempty_string category
                    then errors @ [''Category must be a non-empty string'']
                    else errors);
          errors = (if price \<noteq> JUndefined \<and> not_nonneg_number price
                    then errors @ [''Price must be a non-negative number'']
                    else errors);
          errors = (if quantity \<noteq> JUndefined \<and> not_nonneg_integer quantity
                    then errors @ [''Quantity must be a non-negative integer'']
                    else errors)
      in errors)"

text \<open>\<open>Object.keys(req.body).filter(key => [...].includes(key))\<close>.\<close>

definition recognized_keys :: "jsobject \<Rightarrow> string list" where
  "recognized_keys body =
     filter (\<lambda>key. key \<in> set [''name'', ''description'', ''category'', ''price'', ''quantity''])
       (map fst body)"

definition validateResourceUpdate :: "jsobject \<Rightarrow> mw_result" where
  "validateResourceUpdate body =
     (let errors = validateResourceUpdate_errors body
      in if length errors > 0
         then Respond ((json 400 False)\<lparr>errors := Some errors\<rparr>)
         else let updates = recognized_keys body
              in if length updates = 0
                 then Respond ((json 400 False)\<lparr>error := Some ''No valid fields to update''\<rparr>)
                 else Next)"

section \<open>Problem 5: error middleware\<close>

text \<open>
  \<open>errorHandler\<close>, as a function of \<open>process.env.NODE_ENV\<close> (absent when unset) and of
  \<open>err.message\<close> (here \<open>msg\<close>).
\<close>

definition errorHandler :: "string option \<Rightarrow> string \<Rightarrow> response" where
  "errorHandler node_env msg =
     (if str_includes msg ''SQLITE_CONSTRAINT''
      then (json 400 False)\<lparr>error := Some ''Database constraint violation'',
                             details := Some msg\<rparr>
      else if str_includes msg ''SQLITE_ERROR''
      then (json 500 False)\<lparr>error := Some ''Database error'',
                             details := (if node_env = Some ''development''
                                         then Some msg else None)\<rparr>
      else (json 500 False)\<lparr>error := Some ''Internal server error'',
                             details := (if node_env = Some ''development''
                                         then Some msg else None)\<rparr>)"

section \<open>Storage: the embedded SQL engine\<close>

text \<open>
  The service talks to SQLite through three promisified primitives of
  \<open>database/connection.ts\<close>. SQLite itself is a library outside the repository: what follows
  is a model of its documented behaviour on the one table that \<open>initializeDatabase\<close>
  creates and on the statements the repository sends, with the connection's state passed
  explicitly.
\<close>

text \<open>
  A bound parameter: the repository binds strings and numbers only. (The engine takes a
  string of up to 10^9 bytes; the model is of statements whose strings are within that.)
\<close>

datatype param = PText string | PNum jsnum

text \<open>A rejected promise carries an \<open>Error\<close>; only its \<open>message\<close> is ever inspected.\<close>

datatype js_error = Error string

fun err_message :: "js_error \<Rightarrow> string" where
  "err_message (Error m) = m"

text \<open>
  The connection: the rows of table \<open>resources\<close> in rowid order, the table's entry in
  \<open>sqlite_sequence\<close> (the largest rowid ever assigned, kept because the key is
  \<open>AUTOINCREMENT\<close>), the connection's \<open>last_insert_rowid()\<close>, the clock that
  \<open>CURRENT_TIMESTAMP\<close> reads, and the statements handed to the engine so far.
\<close>

record database =
  rows :: "Resource list"
  sqlite_sequence :: int
  last_insert_rowid :: int
  now :: nat
  executed :: "(string \<times> param list) list"

text \<open>The database right after \<open>initializeDatabase\<close> on a fresh file.\<close>

definition initial_database :: "nat \<Rightarrow> database" where
  "initial_database t =
     \<lparr>rows = [], sqlite_sequence = 0, last_insert_rowid = 0, now = t, executed = []\<rparr>"

subsection \<open>Statement text\<close>

text \<open>
  White space between SQL tokens is insignificant: runs of it collapse to one blank, and
  leading and trailing white space goes (\<open>prev\<close> says whether a blank was just emitted or
  the text has not begun).
\<close>

definition sql_space :: "char \<Rightarrow> bool" where
  "sql_space c = (of_char c \<in> {9, 10, 12, 13, 32 :: nat})"

fun squeeze :: "bool \<Rightarrow> string \<Rightarrow> string" where
  "squeeze prev [] = []"
| "squeeze prev (c # cs) =
     (if sql_space c then (if prev then squeeze True cs else CHR '' '' # squeeze True cs)
      else c # squeeze False cs)"

definition normalize_sql :: "string \<Rightarrow> string" where
  "normalize_sql s = rev (dropWhile sql_space (rev (squeeze True s)))"

definition strip_prefix :: "string \<Rightarrow> string \<Rightarrow> string option" where
  "strip_prefix p s = (if prefix p s then Some (drop (length p) s) else None)"

lemma strip_prefix_shorter:
  "strip_prefix p s = Some r \<Longrightarrow> p \<noteq> [] \<Longrightarrow> length r < length s"
  by (auto simp: strip_prefix_def prefix_def split: if_splits)

text \<open>The forms of statement the engine model understands.\<close>

datatype cond = NameLike | CategoryEq | PriceGe | PriceLe

datatype column = Name | Description | Category | Price | Quantity

datatype stmt =
    InsertResource
  | SelectLastInsertRowid
  | SelectWhere "cond list" bool bool
  | SelectById
  | UpdateById "column list"
  | DeleteById

definition cond_of :: "string \<Rightarrow> (cond \<times> string) option" where
  "cond_of s =
     (case strip_prefix '' AND name LIKE ?'' s of Some r \<Rightarrow> Some (NameLike, r) | None \<Rightarrow>
      (case strip_prefix '' AND category = ?'' s of Some r \<Rightarrow> Some (CategoryEq, r) | None \<Rightarrow>
      (case strip_prefix '' AND price >= ?'' s of Some r \<Rightarrow> Some (PriceGe, r) | None \<Rightarrow>
      (case strip_prefix '' AND price <= ?'' s of Some r \<Rightarrow> Some (PriceLe, r) | None \<Rightarrow>
       None))))"

text \<open>The text of each condition, as \<open>cond_of\<close> recognises it.\<close>

fun cond_text :: "cond \<Rightarrow> string" where
  "cond_text NameLike = '' AND name LIKE ?''"
| "cond_text CategoryEq = '' AND category = ?''"
| "cond_text PriceGe = '' AND price >= ?''"
| "cond_text PriceLe = '' AND price <= ?''"

lemma cond_of_shorter: "cond_of s = Some (c, r) \<Longrightarrow> length r < length s"
  by (auto simp: cond_of_def split: option.splits dest!: strip_prefix_shorter)

function parse_conds :: "string \<Rightarrow> cond list \<times> string" where
  "parse_conds s =
     (case cond_of s of
        None \<Rightarrow> ([], s)
      | Some (c, r) \<Rightarrow> (case parse_conds r of (cs, t) \<Rightarrow> (c # cs, t)))"
  by pat_completeness auto
termination
  by (relation "measure length") (auto dest: cond_of_shorter)

definition assign_of :: "string \<Rightarrow> (column \<times> string) option" where
  "assign_of s =
     (case strip_prefix ''name = ?'' s of Some r \<Rightarrow> Some (Name, r) | None \<Rightarrow>
      (case strip_prefix ''description = ?'' s of Some r \<Rightarrow> Some (Description, r) | None \<Rightarrow>
      (case strip_prefix ''category = ?'' s of Some r \<Rightarrow> Some (Category, r) | None \<Rightarrow>
      (case strip_prefix ''price = ?'' s of Some r \<Rightarrow> Some (Price, r) | None \<Rightarrow>
      (case strip_prefix ''quantity = ?'' s of Some r \<Rightarrow> Some (Quantity, r) | None \<Rightarrow>
       None)))))"

text \<open>The text of each assignment, as \<open>assign_of\<close> recognises it.\<close>

fun assign_text :: "column \<Rightarrow> string" where
  "assign_text Name = ''name = ?''"
| "assign_text Description = ''description = ?''"
| "assign_text Category = ''category = ?''"
| "assign_text Price = ''price = ?''"
| "assign_text Quantity = ''quantity = ?''"

lemma assign_of_shorter: "assign_of s = Some (c, r) \<Longrightarrow> length r < length s"
  by (auto simp: assign_of_def split: option.splits dest!: strip_prefix_shorter)

function parse_assigns :: "string \<Rightarrow> (column list \<times> string) option" where
  "parse_assigns s =
     (case assign_of s of
        None \<Rightarrow> None
      | Some (c, r) \<Rightarrow>
          (case strip_prefix '', '' r of
             None \<Rightarrow> Some ([c], r)
           | Some r' \<Rightarrow>
               (case parse_assigns r' of
                  None \<Rightarrow> None
                | Some (cs, t) \<Rightarrow> Some (c # cs, t))))"
  by pat_completeness auto
termination
proof (relation "measure length", goal_cases)
  case 1
  show ?case by simp
next
  case (2 s x c r r')
  then have "length r < length s" "length r' < length r"
    by (auto dest: assign_of_shorter strip_prefix_shorter)
  then show ?case by simp
qed

declare parse_conds.simps [simp del] parse_assigns.simps [simp del]

definition parse_sql :: "string \<Rightarrow> stmt option" where
  "parse_sql text =
     (let sql = normalize_sql text in
      if sql = ''INSERT INTO resources (name, description, category, price, quantity) VALUES (?, ?, ?, ?, ?)''
      then Some InsertResource
      else if sql = ''SELECT last_insert_rowid() as id'' then Some SelectLastInsertRowid
      else if sql = ''SELECT * FROM resources WHERE id = ?'' then Some SelectById
      else if sql = ''DELETE FROM resources WHERE id = ?'' then Some DeleteById
      else
        (case strip_prefix ''SELECT * FROM resources WHERE 1=1'' sql of
           Some r \<Rightarrow>
             (case parse_conds r of (cs, r1) \<Rightarrow>
                (case strip_prefix '' ORDER BY created_at DESC'' r1 of
                   None \<Rightarrow> None
                 | Some r2 \<Rightarrow>
                     if r2 = [] then Some (SelectWhere cs False False)
                     else if r2 = '' LIMIT ?'' then Some (SelectWhere cs True False)
                     else if r2 = '' LIMIT ? OFFSET ?'' then Some (SelectWhere cs True True)
                     else None))
         | None \<Rightarrow>
             (case strip_prefix ''UPDATE resources SET '' sql of
                Some r \<Rightarrow>
                  (case parse_assigns r of
                     Some (cols, r1) \<Rightarrow>
                       if r1 = '' WHERE id = ?'' then Some (UpdateById cols) else None
                   | None \<Rightarrow> None)
              | None \<Rightarrow> None)))"

subsection \<open>Statement execution\<close>

text \<open>
  The \<open>LIKE\<close> operator (no \<open>ESCAPE\<close>, \<open>case_sensitive_like\<close> left at its default).
  \<open>pattern_compare\<close> is the comparison itself: \<open>%\<close> matches any run of characters, \<open>_\<close>
  exactly one, any other character matches itself, the ASCII letters regardless of case.
\<close>

definition ascii_lower :: "char \<Rightarrow> char" where
  "ascii_lower c =
     (case map_of (zip ''ABCDEFGHIJKLMNOPQRSTUVWXYZ'' ''abcdefghijklmnopqrstuvwxyz'') c of
        Some l \<Rightarrow> l
      | None \<Rightarrow> c)"

fun pattern_compare :: "string \<Rightarrow> string \<Rightarrow> bool" where
  "pattern_compare [] [] = True"
| "pattern_compare [] (c # cs) = False"
| "pattern_compare (p # ps) [] = (p = CHR ''%'' \<and> pattern_compare ps [])"
| "pattern_compare (p # ps) (c # cs) =
     (if p = CHR ''%'' then pattern_compare ps (c # cs) \<or> pattern_compare (p # ps) cs
      else (p = CHR ''_'' \<or> ascii_lower p = ascii_lower c) \<and> pattern_compare ps cs)"

text \<open>
  The operator reads pattern and text as C strings, each ending before its first NUL
  character (\<open>c_string\<close>), and refuses a pattern of more than 50000 bytes, the engine's
  limit on the length of a \<open>LIKE\<close> pattern. The engine holds text in UTF-8: a character
  below 128 is one byte, a character from 128 to 255 two (\<open>utf8_length\<close>). The pattern is
  measured whole, NUL characters and what follows them included.
\<close>

definition c_string :: "string \<Rightarrow> string" where
  "c_string s = takeWhile (\<lambda>c. c \<noteq> CHR 0x00) s"

definition utf8_length :: "string \<Rightarrow> nat" where
  "utf8_length s = sum_list (map (\<lambda>c. if (of_char c :: nat) < 128 then 1 else 2) s)"

definition like :: "string \<Rightarrow> string \<Rightarrow> js_error + bool" where
  "like pat txt =
     (if 50000 < utf8_length pat
      then Inl (Error ''SQLITE_ERROR: LIKE or GLOB pattern too complex'')
      else Inr (pattern_compare (c_string pat) (c_string txt)))"

text \<open>
  An error for a binding the model does not cover (a parameter list whose length or
  types differ from what the repository sends with that statement).
\<close>

definition unsupported :: js_error where
  "unsupported = Error ''unsupported parameter binding''"

text \<open>
  The \<open>WHERE\<close> conditions with the parameters bound to their \<open>?\<close>, as a test on a row.
  The conditions are joined by \<open>AND\<close> and tested in the order written; a row that fails
  one is not tested on those after it (\<open>and_also\<close>), and a condition that fails with an
  error ends the statement. A comparison with \<open>NULL\<close> (a bound \<open>NaN\<close>) is not true, which
  \<open>js_ge\<close> and \<open>js_le\<close> give as well. The text comparison \<open>=\<close> is exact (collation
  \<open>BINARY\<close>, the whole strings).
\<close>

definition and_also :: "bool \<Rightarrow> (js_error + bool) \<Rightarrow> js_error + bool" where
  "and_also b rest = (if b then rest else Inr False)"

fun bind_conds :: "cond list \<Rightarrow> param list \<Rightarrow> (Resource \<Rightarrow> js_error + bool) option" where
  "bind_conds [] [] = Some (\<lambda>r. Inr True)"
| "bind_conds (NameLike # cs) (PText pat # ps) =
     map_option
       (\<lambda>P r. case like pat (name r) of Inl e \<Rightarrow> Inl e | Inr b \<Rightarrow> and_also b (P r))
       (bind_conds cs ps)"
| "bind_conds (CategoryEq # cs) (PText c # ps) =
     map_option (\<lambda>P r. and_also (category r = c) (P r)) (bind_conds cs ps)"
| "bind_conds (PriceGe # cs) (PNum n # ps) =
     map_option (\<lambda>P r. and_also (js_ge (price r) n) (P r)) (bind_conds cs ps)"
| "bind_conds (PriceLe # cs) (PNum n # ps) =
     map_option (\<lambda>P r. and_also (js_le (price r) n) (P r)) (bind_conds cs ps)"
| "bind_conds _ _ = None"

text \<open>
  The scan of the table: the rows that pass the test, in rowid order, unless the test
  fails with an error on some row.
\<close>

fun scan :: "(Resource \<Rightarrow> js_error + bool) \<Rightarrow> Resource list \<Rightarrow> js_error + Resource list" where
  "scan P [] = Inr []"
| "scan P (r # rs) =
     (case P r of
        Inl e \<Rightarrow> Inl e
      | Inr b \<Rightarrow>
          (case scan P rs of
             Inl e \<Rightarrow> Inl e
           | Inr found \<Rightarrow> Inr (if b then r # found else found)))"

text \<open>
  The value of a \<open>LIMIT\<close> or \<open>OFFSET\<close> expression must be an integer (else the statement
  fails with a datatype mismatch). A negative \<open>LIMIT\<close> means no limit; a negative
  \<open>OFFSET\<close> means none.
\<close>

fun as_integer :: "param \<Rightarrow> int option" where
  "as_integer (PNum (Fin r)) = (if of_int \<lfloor>r\<rfloor> = r then Some \<lfloor>r\<rfloor> else None)"
| "as_integer _ = None"

definition apply_limit :: "int \<Rightarrow> 'a list \<Rightarrow> 'a list" where
  "apply_limit l xs = (if l < 0 then xs else take (nat l) xs)"

definition apply_offset :: "int \<Rightarrow> 'a list \<Rightarrow> 'a list" where
  "apply_offset k xs = drop (nat k) xs"

text \<open>
  \<open>ORDER BY created_at DESC\<close>. The order among rows of equal \<open>created_at\<close> is not
  specified by SQLite; the model keeps them in rowid order.
\<close>

definition order_by_created_desc :: "Resource list \<Rightarrow> Resource list" where
  "order_by_created_desc rs = rev (sort_key created_at (rev rs))"

definition mismatch :: js_error where
  "mismatch = Error ''SQLITE_MISMATCH: datatype mismatch''"

text \<open>
  The limit and the offset of a \<open>SELECT\<close>, computed before the table is scanned: \<open>-1\<close>
  and \<open>0\<close> when the clause is absent.
\<close>

fun paging :: "bool \<Rightarrow> bool \<Rightarrow> param list \<Rightarrow> js_error + int \<times> int" where
  "paging False False [] = Inr (- 1, 0)"
| "paging True False [l] =
     (case as_integer l of
        None \<Rightarrow> Inl mismatch
      | Some n \<Rightarrow> Inr (n, 0))"
| "paging True True [l, k] =
     (case (as_integer l, as_integer k) of
        (Some n, Some m) \<Rightarrow> Inr (n, m)
      | _ \<Rightarrow> Inl mismatch)"
| "paging _ _ _ = Inl unsupported"

text \<open>With a limit of \<open>0\<close> the statement ends before the scan.\<close>

definition select_where ::
  "Resource list \<Rightarrow> cond list \<Rightarrow> bool \<Rightarrow> bool \<Rightarrow> param list \<Rightarrow> js_error + Resource list" where
  "select_where rs cs has_limit has_offset ps =
     (case bind_conds cs (take (length cs) ps) of
        None \<Rightarrow> Inl unsupported
      | Some P \<Rightarrow>
          (case paging has_limit has_offset (drop (length cs) ps) of
             Inl e \<Rightarrow> Inl e
           | Inr (n, m) \<Rightarrow>
               if n = 0 then Inr []
               else
                 (case scan P rs of
                    Inl e \<Rightarrow> Inl e
                  | Inr found \<Rightarrow>
                      Inr (apply_limit n (apply_offset m (order_by_created_desc found))))))"

text \<open>\<open>WHERE id = ?\<close> with a number bound: \<open>NaN\<close> (bound as \<open>NULL\<close>) equals no id.\<close>

definition has_id :: "jsnum \<Rightarrow> Resource \<Rightarrow> bool" where
  "has_id n r = (n = Fin (of_int (id' r)))"

text \<open>
  The column constraints of the table: \<open>NOT NULL\<close> on the five business columns (only a
  number can arrive as \<open>NULL\<close>, namely a bound \<open>NaN\<close>), \<open>CHECK(price >= 0)\<close> and
  \<open>CHECK(quantity >= 0)\<close>.
\<close>

definition check_row :: "'a ResourceInput_scheme \<Rightarrow> js_error option" where
  "check_row r =
     (if price r = NaN
      then Some (Error ''SQLITE_CONSTRAINT: NOT NULL constraint failed: resources.price'')
      else if quantity r = NaN
      then Some (Error ''SQLITE_CONSTRAINT: NOT NULL constraint failed: resources.quantity'')
      else if \<not> js_ge (price r) (Fin 0)
      then Some (Error ''SQLITE_CONSTRAINT: CHECK constraint failed: price >= 0'')
      else if \<not> js_ge (quantity r) (Fin 0)
      then Some (Error ''SQLITE_CONSTRAINT: CHECK constraint failed: quantity >= 0'')
      else None)"

text \<open>
  \<open>INSERT\<close> into a table whose key is \<open>INTEGER PRIMARY KEY AUTOINCREMENT\<close>: the new rowid
  is one more than the largest rowid the table has ever held (the larger of the
  \<open>sqlite_sequence\<close> entry and the largest rowid present); when that was the largest
  64-bit integer the insert fails with \<open>SQLITE_FULL\<close>. Both timestamps default to
  \<open>CURRENT_TIMESTAMP\<close>.
\<close>

definition largest_rowid :: "database \<Rightarrow> int" where
  "largest_rowid d = fold max (map id' (rows d)) (sqlite_sequence d)"

definition insert_row :: "database \<Rightarrow> ResourceInput \<Rightarrow> (js_error + nat) \<times> database" where
  "insert_row d input =
     (case check_row input of
        Some e \<Rightarrow> (Inl e, d)
      | None \<Rightarrow>
          if largest_rowid d \<ge> 9223372036854775807
          then (Inl (Error ''SQLITE_FULL: database or disk is full''), d)
          else
            (let rowid = largest_rowid d + 1;
                 r = \<lparr>name = name input, description = description input,
                      category = category input, price = price input,
                      quantity = quantity input,
                      id' = rowid, created_at = now d, updated_at = now d\<rparr>
             in (Inr 1, d\<lparr>rows := rows d @ [r], sqlite_sequence := rowid,
                            last_insert_rowid := rowid\<rparr>)))"

text \<open>
  \<open>UPDATE ... SET ... WHERE id = ?\<close>: the assignments are applied to each row with that
  id, the constraints are checked on the new row (a violation aborts the statement and
  leaves the table as it was), and the trigger \<open>update_resources_timestamp\<close> then sets
  \<open>updated_at\<close> of the row to \<open>CURRENT_TIMESTAMP\<close>.
\<close>

fun assign :: "column \<Rightarrow> param \<Rightarrow> Resource \<Rightarrow> Resource option" where
  "assign Name (PText s) r = Some (r\<lparr>name := s\<rparr>)"
| "assign Description (PText s) r = Some (r\<lparr>description := s\<rparr>)"
| "assign Category (PText s) r = Some (r\<lparr>category := s\<rparr>)"
| "assign Price (PNum n) r = Some (r\<lparr>price := n\<rparr>)"
| "assign Quantity (PNum n) r = Some (r\<lparr>quantity := n\<rparr>)"
| "assign _ _ r = None"

fun assign_all :: "column list \<Rightarrow> param list \<Rightarrow> Resource \<Rightarrow> Resource option" where
  "assign_all [] [] r = Some r"
| "assign_all (c # cs) (p # ps) r =
     (case assign c p r of None \<Rightarrow> None | Some r' \<Rightarrow> assign_all cs ps r')"
| "assign_all _ _ r = None"

definition update_row :: "column list \<Rightarrow> param list \<Rightarrow> nat \<Rightarrow> Resource \<Rightarrow> js_error + Resource" where
  "update_row cols vals t r =
     (case assign_all cols vals r of
        None \<Rightarrow> Inl unsupported
      | Some r' \<Rightarrow>
          (case check_row r' of
             Some e \<Rightarrow> Inl e
           | None \<Rightarrow> Inr (r'\<lparr>updated_at := t\<rparr>)))"

fun update_rows :: "(Resource \<Rightarrow> js_error + Resource) \<Rightarrow> (Resource \<Rightarrow> bool) \<Rightarrow> Resource list
    \<Rightarrow> js_error + Resource list" where
  "update_rows f P [] = Inr []"
| "update_rows f P (r # rs) =
     (if P r
      then (case f r of
              Inl e \<Rightarrow> Inl e
            | Inr r' \<Rightarrow>
                (case update_rows f P rs of Inl e \<Rightarrow> Inl e | Inr rs' \<Rightarrow> Inr (r' # rs')))
      else (case update_rows f P rs of Inl e \<Rightarrow> Inl e | Inr rs' \<Rightarrow> Inr (r # rs')))"

text \<open>
  What a statement yields: the number of rows it changed (the driver's \<open>this.changes\<close>)
  and its result rows.
\<close>

record outcome =
  changes :: nat
  result_rows :: "sqlrow list"

fun run_stmt :: "database \<Rightarrow> stmt \<Rightarrow> param list \<Rightarrow> (js_error + outcome) \<times> database" where
  "run_stmt d InsertResource [PText n, PText de, PText c, PNum p, PNum q] =
     (case insert_row d \<lparr>name = n, description = de, category = c, price = p, quantity = q\<rparr> of
        (Inl e, d') \<Rightarrow> (Inl e, d')
      | (Inr k, d') \<Rightarrow> (Inr \<lparr>changes = k, result_rows = []\<rparr>, d'))"
| "run_stmt d SelectLastInsertRowid [] =
     (Inr \<lparr>changes = 0, result_rows = [IdRow (nearest_double (last_insert_rowid d))]\<rparr>, d)"
| "run_stmt d (SelectWhere cs has_limit has_offset) ps =
     (case select_where (rows d) cs has_limit has_offset ps of
        Inl e \<Rightarrow> (Inl e, d)
      | Inr rs \<Rightarrow> (Inr \<lparr>changes = 0, result_rows = map js_row rs\<rparr>, d))"
| "run_stmt d SelectById [PNum n] =
     (Inr \<lparr>changes = 0, result_rows = map js_row (filter (has_id n) (rows d))\<rparr>, d)"
| "run_stmt d (UpdateById cols) ps =
     (case rev ps of
        PNum n # rev_vals \<Rightarrow>
          (case update_rows (update_row cols (rev rev_vals) (now d)) (has_id n) (rows d) of
             Inl e \<Rightarrow> (Inl e, d)
           | Inr rs \<Rightarrow>
               (Inr \<lparr>changes = length (filter (has_id n) (rows d)), result_rows = []\<rparr>,
                d\<lparr>rows := rs\<rparr>))
      | _ \<Rightarrow> (Inl unsupported, d))"
| "run_stmt d DeleteById [PNum n] =
     (Inr \<lparr>changes = length (filter (has_id n) (rows d)), result_rows = []\<rparr>,
      d\<lparr>rows := filter (\<lambda>r. \<not> has_id n r) (rows d)\<rparr>)"
| "run_stmt d _ _ = (Inl unsupported, d)"

text \<open>
  Handing a statement to the engine: it is recorded, prepared (text the engine cannot
  parse is an \<open>SQLITE_ERROR\<close>) and run.
\<close>

definition exec :: "database \<Rightarrow> string \<Rightarrow> param list \<Rightarrow> (js_error + outcome) \<times> database" where
  "exec d sql params =
     (let d1 = d\<lparr>executed := executed d @ [(sql, params)]\<rparr> in
      case parse_sql sql of
        None \<Rightarrow> (Inl (Error ''SQLITE_ERROR: syntax error''), d1)
      | Some st \<Rightarrow> run_stmt d1 st params)"

subsection \<open>The promisified primitives of \<open>database/connection.ts\<close>\<close>

text \<open>
  Each returns the value its promise resolves to, or the error it rejects with, and the
  connection afterwards. \<open>runQuery\<close> resolves to \<open>{changes}\<close>, \<open>getQuery\<close> to the first row
  or \<open>undefined\<close>, \<open>allQuery\<close> to all rows.
\<close>

definition runQuery :: "database \<Rightarrow> string \<Rightarrow> param list \<Rightarrow> (js_error + nat) \<times> database" where
  "runQuery d sql params =
     (case exec d sql params of
        (Inl err, d') \<Rightarrow> (Inl err, d')
      | (Inr out, d') \<Rightarrow> (Inr (changes out), d'))"

definition getQuery :: "database \<Rightarrow> string \<Rightarrow> param list \<Rightarrow> (js_error + sqlrow option) \<times> database" where
  "getQuery d sql params =
     (case exec d sql params of
        (Inl err, d') \<Rightarrow> (Inl err, d')
      | (Inr out, d') \<Rightarrow>
          (Inr (case result_rows out of [] \<Rightarrow> None | row # _ \<Rightarrow> Some row), d'))"

definition allQuery :: "database \<Rightarrow> string \<Rightarrow> param list \<Rightarrow> (js_error + sqlrow list) \<times> database" where
  "allQuery d sql params =
     (case exec d sql params of
        (Inl err, d') \<Rightarrow> (Inl err, d')
      | (Inr out, d') \<Rightarrow> (Inr (result_rows out), d'))"

section \<open>Problem 5: the resource repository (\<open>ResourceModel\<close>)\<close>

text \<open>
  Every method takes the connection and returns it with its result. An identifier is an
  \<open>int\<close>, the value of a number that holds an integer: the callers pass what \<open>parseInt\<close>
  or \<open>create\<close> returned.
\<close>

text \<open>
  \<open>ResourceFilters\<close> and the \<open>Partial<...>\<close> argument of \<open>update\<close>: every field is optional
  (\<open>None\<close> is \<open>undefined\<close>). The fields \<open>name\<close> and \<open>category\<close> of the filters are written
  \<open>name_like\<close> and \<open>category_is\<close>, those of the partial update carry a prime.
\<close>

record ResourceFilters =
  name_like :: "string option"
  category_is :: "string option"
  min_price :: "jsnum option"
  max_price :: "jsnum option"
  limit :: "jsnum option"
  offset :: "jsnum option"

record ResourceUpdates =
  name' :: "string option"
  description' :: "string option"
  category' :: "string option"
  price' :: "jsnum option"
  quantity' :: "jsnum option"

definition id_param :: "int \<Rightarrow> param" where
  "id_param i = PNum (Fin (of_int i))"

text \<open>
  The template literal of \<open>create\<close>: three lines, each begun by a line feed and its
  indentation.
\<close>

definition insert_sql :: string where
  "insert_sql =
     CHR 0x0A # ''        INSERT INTO resources (name, description, category, price, quantity)'' @
     CHR 0x0A # ''        VALUES (?, ?, ?, ?, ?)'' @
     CHR 0x0A # ''      ''"

definition create :: "database \<Rightarrow> ResourceInput \<Rightarrow> (js_error + int) \<times> database" where
  "create d resource =
     (let sql = insert_sql
      in case runQuery d sql
                [PText (name resource), PText (description resource),
                 PText (category resource), PNum (price resource),
                 PNum (quantity resource)] of
           (Inl err, d1) \<Rightarrow> (Inl err, d1)
         | (Inr _, d1) \<Rightarrow>
             (case getQuery d1 ''SELECT last_insert_rowid() as id'' [] of
                (Inl err, d2) \<Rightarrow> (Inl err, d2)
              | (Inr result, d2) \<Rightarrow>
                  (Inr (case result of
                          None \<Rightarrow> 0
                        | Some row \<Rightarrow> if row_id row \<noteq> 0 then row_id row else 0), d2)))"

text \<open>
  \<open>findAll\<close>: the text and the parameters after all the \<open>if\<close> statements. \<open>if (filters.x)\<close>
  tests truthiness: an empty string, \<open>0\<close> and \<open>NaN\<close> count as absent.
\<close>

definition findAll_query :: "ResourceFilters \<Rightarrow> string \<times> param list" where
  "findAll_query filters =
     (let sql = ''SELECT * FROM resources WHERE 1=1'';
          params = [];
          (sql, params) =
            (case name_like filters of
               Some n \<Rightarrow> if n \<noteq> [] then (sql @ '' AND name LIKE ?'', params @ [PText (''%'' @ n @ ''%'')])
                         else (sql, params)
             | None \<Rightarrow> (sql, params));
          (sql, params) =
            (case category_is filters of
               Some c \<Rightarrow> if c \<noteq> [] then (sql @ '' AND category = ?'', params @ [PText c])
                         else (sql, params)
             | None \<Rightarrow> (sql, params));
          (sql, params) =
            (case min_price filters of
               Some p \<Rightarrow> (sql @ '' AND price >= ?'', params @ [PNum p])
             | None \<Rightarrow> (sql, params));
          (sql, params) =
            (case max_price filters of
               Some p \<Rightarrow> (sql @ '' AND price <= ?'', params @ [PNum p])
             | None \<Rightarrow> (sql, params));
          sql = sql @ '' ORDER BY created_at DESC'';
          (sql, params) =
            (case limit filters of
               Some l \<Rightarrow> if truthy_num l then (sql @ '' LIMIT ?'', params @ [PNum l])
                         else (sql, params)
             | None \<Rightarrow> (sql, params));
          (sql, params) =
            (case offset filters of
               Some k \<Rightarrow> if truthy_num k then (sql @ '' OFFSET ?'', params @ [PNum k])
                         else (sql, params)
             | None \<Rightarrow> (sql, params))
      in (sql, params))"

definition findAll :: "database \<Rightarrow> ResourceFilters \<Rightarrow> (js_error + sqlrow list) \<times> database" where
  "findAll d filters = (case findAll_query filters of (sql, params) \<Rightarrow> allQuery d sql params)"

text \<open>
  The conditions \<open>findAll\<close> appends, each with the parameter it pushes, in the order of
  the four \<open>if\<close> statements (\<open>findAll_query_where\<close> below relates this list to
  \<open>findAll_query\<close>).
\<close>

definition where_clauses :: "ResourceFilters \<Rightarrow> (cond \<times> param) list" where
  "where_clauses filters =
     (case name_like filters of
        Some n \<Rightarrow> if n \<noteq> [] then [(NameLike, PText (''%'' @ n @ ''%''))] else []
      | None \<Rightarrow> []) @
     (case category_is filters of
        Some c \<Rightarrow> if c \<noteq> [] then [(CategoryEq, PText c)] else []
      | None \<Rightarrow> []) @
     (case min_price filters of Some p \<Rightarrow> [(PriceGe, PNum p)] | None \<Rightarrow> []) @
     (case max_price filters of Some p \<Rightarrow> [(PriceLe, PNum p)] | None \<Rightarrow> [])"

definition findById :: "database \<Rightarrow> int \<Rightarrow> (js_error + sqlrow option) \<times> database" where
  "findById d i = getQuery d ''SELECT * FROM resources WHERE id = ?'' [id_param i]"

text \<open>
  \<open>update\<close>: the arrays \<open>fields\<close> and \<open>values\<close> (here \<open>flds\<close> and \<open>vals\<close>) after the five
  \<open>if\<close> statements.
\<close>

definition update_fields :: "ResourceUpdates \<Rightarrow> string list \<times> param list" where
  "update_fields updates =
     (let flds = [];
          vals = [];
          (flds, vals) =
            (case name' updates of
               Some v \<Rightarrow> (flds @ [''name = ?''], vals @ [PText v])
             | None \<Rightarrow> (flds, vals));
          (flds, vals) =
            (case description' updates of
               Some v \<Rightarrow> (flds @ [''description = ?''], vals @ [PText v])
             | None \<Rightarrow> (flds, vals));
          (flds, vals) =
            (case category' updates of
               Some v \<Rightarrow> (flds @ [''category = ?''], vals @ [PText v])
             | None \<Rightarrow> (flds, vals));
          (flds, vals) =
            (case price' updates of
               Some v \<Rightarrow> (flds @ [''price = ?''], vals @ [PNum v])
             | None \<Rightarrow> (flds, vals));
          (flds, vals) =
            (case quantity' updates of
               Some v \<Rightarrow> (flds @ [''quantity = ?''], vals @ [PNum v])
             | None \<Rightarrow> (flds, vals))
      in (flds, vals))"

text \<open>
  The assignments \<open>update\<close> collects, each with the value it pushes, in the order of the
  five \<open>if\<close> statements (\<open>update_fields_clauses\<close> below relates this list to
  \<open>update_fields\<close>).
\<close>

definition set_clauses :: "ResourceUpdates \<Rightarrow> (column \<times> param) list" where
  "set_clauses updates =
     (case name' updates of Some v \<Rightarrow> [(Name, PText v)] | None \<Rightarrow> []) @
     (case description' updates of Some v \<Rightarrow> [(Description, PText v)] | None \<Rightarrow> []) @
     (case category' updates of Some v \<Rightarrow> [(Category, PText v)] | None \<Rightarrow> []) @
     (case price' updates of Some v \<Rightarrow> [(Price, PNum v)] | None \<Rightarrow> []) @
     (case quantity' updates of Some v \<Rightarrow> [(Quantity, PNum v)] | None \<Rightarrow> [])"

text \<open>\<open>Array.prototype.join\<close>.\<close>

fun join :: "string \<Rightarrow> string list \<Rightarrow> string" where
  "join sep [] = []"
| "join sep [x] = x"
| "join sep (x # y # ys) = x @ sep @ join sep (y # ys)"

definition update_sql :: "string list \<Rightarrow> string" where
  "update_sql flds = ''UPDATE resources SET '' @ join '', '' flds @ '' WHERE id = ?''"

definition update :: "database \<Rightarrow> int \<Rightarrow> ResourceUpdates \<Rightarrow> bool \<times> database" where
  "update d i updates =
     (let (flds, vals) = update_fields updates in
        if length flds = 0 then (False, d)
        else
          (let vals = vals @ [id_param i];
               sql = update_sql flds
           in case runQuery d sql vals of
                (Inl _, d') \<Rightarrow> (False, d')
              | (Inr result_changes, d') \<Rightarrow> (result_changes > 0, d')))"

definition delete :: "database \<Rightarrow> int \<Rightarrow> bool \<times> database" where
  "delete d i =
     (case runQuery d ''DELETE FROM resources WHERE id = ?'' [id_param i] of
        (Inl _, d') \<Rightarrow> (False, d')
      | (Inr _, d') \<Rightarrow> (True, d'))"

section \<open>Problem 5: routes\<close>

text \<open>
  \<open>parseInt(string)\<close> without a radix: leading white space is skipped, a sign is read, a
  prefix \<open>0x\<close> or \<open>0X\<close> selects radix 16, and the longest run of digits that follows is the
  value; what comes after is ignored. Without a digit the result is \<open>NaN\<close>, here \<open>None\<close>.
  (The value is the exact integer: its rounding to a double is not modelled.)
\<close>

definition digit_value :: "char \<Rightarrow> nat option" where
  "digit_value c =
     (let n = of_char c :: nat in
      if 48 \<le> n \<and> n \<le> 57 then Some (n - 48)
      else if 97 \<le> n \<and> n \<le> 122 then Some (n - 87)
      else if 65 \<le> n \<and> n \<le> 90 then Some (n - 55)
      else None)"

definition is_digit :: "nat \<Rightarrow> char \<Rightarrow> bool" where
  "is_digit radix c = (case digit_value c of Some v \<Rightarrow> v < radix | None \<Rightarrow> False)"

definition digits_value :: "nat \<Rightarrow> string \<Rightarrow> nat" where
  "digits_value radix z =
     foldl (\<lambda>acc c. acc * radix + (case digit_value c of Some v \<Rightarrow> v | None \<Rightarrow> 0)) 0 z"

definition parseInt :: "string \<Rightarrow> int option" where
  "parseInt string =
     (let s = dropWhile is_ws string;
          (sign, s) =
            (case s of
               c # cs \<Rightarrow> if c = CHR ''-'' then (- 1, cs)
                          else if c = CHR ''+'' then (1, cs)
                          else (1, s)
             | [] \<Rightarrow> (1, s));
          (radix, s) =
            (if prefix ''0x'' s \<or> prefix ''0X'' s then (16, drop 2 s) else (10, s));
          z = takeWhile (is_digit radix) s
      in if z = [] then None else Some (sign * int (digits_value radix z)))"

text \<open>A number from \<open>parseInt\<close>, as a \<open>number\<close>.\<close>

definition number_of :: "int option \<Rightarrow> jsnum" where
  "number_of r = (case r of None \<Rightarrow> NaN | Some i \<Rightarrow> Fin (of_int i))"

text \<open>
  What a route handler does with the request: it sends a response, or passes an error
  to \<open>next\<close>, which lands in \<open>errorHandler\<close>.
\<close>

datatype handled = Sent response | NextError js_error

fun respond :: "string option \<Rightarrow> handled \<Rightarrow> response" where
  "respond node_env (Sent r) = r"
| "respond node_env (NextError err) = errorHandler node_env (err_message err)"

text \<open>
  \<open>GET /\<close>: the \<open>filters\<close> object built from the query string (each parameter taken as
  a single string when present). \<open>parseFloat\<close> is passed in.
\<close>

definition list_filters :: "(string \<Rightarrow> jsnum) \<Rightarrow> (string \<times> string) list \<Rightarrow> ResourceFilters" where
  "list_filters parseFloat query =
     \<lparr>name_like = map_of query ''name'',
      category_is = map_of query ''category'',
      min_price =
        (case map_of query ''min_price'' of
           Some s \<Rightarrow> if s \<noteq> [] then Some (parseFloat s) else None
         | None \<Rightarrow> None),
      max_price =
        (case map_of query ''max_price'' of
           Some s \<Rightarrow> if s \<noteq> [] then Some (parseFloat s) else None
         | None \<Rightarrow> None),
      limit =
        Some (case map_of query ''limit'' of
                Some s \<Rightarrow> if s \<noteq> [] then number_of (parseInt s) else Fin 50
              | None \<Rightarrow> Fin 50),
      offset =
        Some (case map_of query ''offset'' of
                Some s \<Rightarrow> if s \<noteq> [] then number_of (parseInt s) else Fin 0
              | None \<Rightarrow> Fin 0)\<rparr>"

text \<open>\<open>GET /:id\<close>.\<close>

definition get_resource_handler :: "database \<Rightarrow> string \<Rightarrow> handled \<times> database" where
  "get_resource_handler d params_id =
     (case parseInt params_id of
        None \<Rightarrow> (Sent ((json 400 False)\<lparr>error := Some ''Invalid resource ID''\<rparr>), d)
      | Some i \<Rightarrow>
          (case findById d i of
             (Inl err, d1) \<Rightarrow> (NextError err, d1)
           | (Inr None, d1) \<Rightarrow>
               (Sent ((json 404 False)\<lparr>error := Some ''Resource not found''\<rparr>), d1)
           | (Inr (Some resource), d1) \<Rightarrow>
               (Sent ((json 200 True)\<lparr>data := One resource\<rparr>), d1)))"

text \<open>
  \<open>PUT /:id\<close>. The handler runs after \<open>validateResourceUpdate\<close> has passed the body on, so
  each of the five properties is \<open>undefined\<close> or a value of its type, and reading the body
  as \<open>Partial<Resource>\<close> gives \<open>as_updates\<close>.
\<close>

definition as_updates :: "jsobject \<Rightarrow> ResourceUpdates" where
  "as_updates body =
     \<lparr>name' = (case get_field body ''name'' of JStr s \<Rightarrow> Some s | _ \<Rightarrow> None),
      description' = (case get_field body ''description'' of JStr s \<Rightarrow> Some s | _ \<Rightarrow> None),
      category' = (case get_field body ''category'' of JStr s \<Rightarrow> Some s | _ \<Rightarrow> None),
      price' = (case get_field body ''price'' of JNum n \<Rightarrow> Some n | _ \<Rightarrow> None),
      quantity' = (case get_field body ''quantity'' of JNum n \<Rightarrow> Some n | _ \<Rightarrow> None)\<rparr>"

definition put_resource_handler :: "database \<Rightarrow> string \<Rightarrow> jsobject \<Rightarrow> handled \<times> database" where
  "put_resource_handler d params_id body =
     (case parseInt params_id of
        None \<Rightarrow> (Sent ((json 400 False)\<lparr>error := Some ''Invalid resource ID''\<rparr>), d)
      | Some i \<Rightarrow>
          (case update d i (as_updates body) of
             (False, d1) \<Rightarrow>
               (Sent ((json 404 False)
                  \<lparr>error := Some ''Resource not found or no updates provided''\<rparr>), d1)
           | (True, d1) \<Rightarrow>
               (case findById d1 i of
                  (Inl err, d2) \<Rightarrow> (NextError err, d2)
                | (Inr updated, d2) \<Rightarrow>
                    (Sent ((json 200 True)
                       \<lparr>data := (case updated of None \<Rightarrow> NoData | Some r \<Rightarrow> One r)\<rparr>), d2))))"

definition put_resource :: "database \<Rightarrow> string \<Rightarrow> jsobject \<Rightarrow> handled \<times> database" where
  "put_resource d params_id body =
     (case validateResourceUpdate body of
        Respond r \<Rightarrow> (Sent r, d)
      | Next \<Rightarrow> put_resource_handler d params_id body)"

section \<open>Sequences of repository calls\<close>

text \<open>
  A single-threaded client: repository calls run one after the other on the one
  connection, with time passing in between. \<open>calls\<close> collects the identifiers that the
  successful \<open>create\<close> calls return, in order.
\<close>

datatype repo_call =
    Create ResourceInput
  | Update int ResourceUpdates
  | Delete int
  | Wait nat

fun call :: "database \<Rightarrow> repo_call \<Rightarrow> int option \<times> database" where
  "call d (Create resource) =
     (case create d resource of
        (Inl err, d') \<Rightarrow> (None, d')
      | (Inr i, d') \<Rightarrow> (Some i, d'))"
| "call d (Update i updates) = (None, snd (update d i updates))"
| "call d (Delete i) = (None, snd (delete d i))"
| "call d (Wait n) = (None, d\<lparr>now := now d + n\<rparr>)"

fun calls :: "database \<Rightarrow> repo_call list \<Rightarrow> int list \<times> database" where
  "calls d [] = ([], d)"
| "calls d (c # cs) =
     (case call d c of
        (r, d1) \<Rightarrow>
          (case calls d1 cs of
             (ids, d2) \<Rightarrow> ((case r of None \<Rightarrow> [] | Some i \<Rightarrow> [i]) @ ids, d2)))"

text \<open>
  The invariant of the store behind \<open>AUTOINCREMENT\<close>: no row has a rowid above the
  table's entry in \<open>sqlite_sequence\<close>.
\<close>

definition ids_bounded :: "database \<Rightarrow> bool" where
  "ids_bounded d = list_all (\<lambda>r. id' r \<le> sqlite_sequence d) (rows d)"

section \<open>Problem 4: three implementations of sum-to-n\<close>















section \<open>Example data\<close>

text \<open>
  A resource as the README creates it, a connection whose table holds just that row,
  and the filter and update objects with no field set.
\<close>

definition new_laptop :: ResourceInput where
  "new_laptop = \<lparr>name = ''Laptop'', description = ''High-performance laptop'',
                  category = ''Electronics'', price = Fin 999.99, quantity = Fin 5\<rparr>"

definition laptop :: Resource where
  "laptop = \<lparr>name = ''Laptop'', description = ''High-performance laptop'',
              category = ''Electronics'', price = Fin 999.99, quantity = Fin 5,
              id' = 1, created_at = 100, updated_at = 100\<rparr>"

definition example_database :: database where
  "example_database =
     \<lparr>rows = [laptop], sqlite_sequence = 1, last_insert_rowid = 1, now = 200, executed = []\<rparr>"

text \<open>A connection whose table has reached the identifier \<open>2^53\<close>.\<close>

definition big_database :: database where
  "big_database =
     \<lparr>rows = [laptop\<lparr>id' := 9007199254740992\<rparr>], sqlite_sequence = 9007199254740992,
      last_insert_rowid = 9007199254740992, now = 200, executed = []\<rparr>"

definition no_filters :: ResourceFilters where
  "no_filters = \<lparr>name_like = None, category_is = None, min_price = None, max_price = None,
                  limit = None, offset = None\<rparr>"

definition no_updates :: ResourceUpdates where
  "no_updates = \<lparr>name' = None, description' = None, category' = None, price' = None,
                  quantity' = None\<rparr>"

section \<open>Properties\<close>

subsection \<open>Agreement of the three implementations\<close>

lemma nearest_double_exact: "\<bar>x\<bar> < 2 ^ 53 \<Longrightarrow> nearest_double x = x"
  by (auto simp: nearest_double_def round_nat_def nat_less_iff)



























subsection \<open>The creation validator\<close>

lemma trim_Test: "trim ''Test'' = ''Test''"
  by (simp add: trim_def is_ws_def)

lemma validateResource_errors_name_only:
  "validateResource_errors [(''name'', JStr ''Test'')] =
     [''Description is required and must be a non-empty string'',
      ''Category is required and must be a non-empty string'',
      ''Price is required and must be a non-negative number'',
      ''Quantity is required and must be a non-negative integer'']"
  by (simp add: validateResource_errors_def get_field_def not_nonempty_string_def trim_Test)

lemma pick_in_order:
  assumes "distinct [m1, m2, m3, m4, m5]"
    and "xs = (if a then [m1] else []) @ (if b then [m2] else []) @ (if c then [m3] else []) @
      (if d then [m4] else []) @ (if e then [m5] else [])"
  shows "xs = filter (\<lambda>m. m \<in> set xs) [m1, m2, m3, m4, m5]"
  using assms by (cases a; cases b; cases c; cases d; cases e) auto

lemma validateResource_errors_rules:
  "validateResource_errors body =
     (if \<not> truthy (get_field body ''name'') \<or> not_nonempty_string (get_field body ''name'')
      then [''Name is required and must be a non-empty string''] else []) @
     (if \<not> truthy (get_field body ''description'') \<or>
         not_nonempty_string (get_field body ''description'')
      then [''Description is required and must be a non-empty string''] else []) @
     (if \<not> truthy (get_field body ''category'') \<or>
         not_nonempty_string (get_field body ''category'')
      then [''Category is required and must be a non-empty string''] else []) @
     (if get_field body ''price'' = JUndefined \<or> not_nonneg_number (get_field body ''price'')
      then [''Price is required and must be a non-negative number''] else []) @
     (if get_field body ''quantity'' = JUndefined \<or>
         not_nonneg_integer (get_field body ''quantity'')
      then [''Quantity is required and must be a non-negative integer''] else [])"
  by (simp add: validateResource_errors_def Let_def)

text \<open>
  C5. The creation validator applies its five rules independently and collects every
  violation: each message is in the list exactly when the rule of its own field is
  violated, whatever the other fields hold, no message is repeated, and the list holds
  nothing else, in the order of the five rules. The validator passes the request on
  exactly when the list is empty, and otherwise answers 400 with the whole list. For the payload \<open>{name: "Test"}\<close> the answer is 400 with exactly four
  messages, one for each missing field.
\<close>

theorem validateResource_collects_every_violation:
  "validateResource [(''name'', JStr ''Test'')] =
     Respond ((json 400 False)\<lparr>errors := Some
       [''Description is required and must be a non-empty string'',
        ''Category is required and must be a non-empty string'',
        ''Price is required and must be a non-negative number'',
        ''Quantity is required and must be a non-negative integer'']\<rparr>) \<and>
   length (validateResource_errors [(''name'', JStr ''Test'')]) = 4 \<and>
   (''Name is required and must be a non-empty string'' \<in> set (validateResource_errors body)) =
     (\<not> truthy (get_field body ''name'') \<or> not_nonempty_string (get_field body ''name'')) \<and>
   (''Description is required and must be a non-empty string''
      \<in> set (validateResource_errors body)) =
     (\<not> truthy (get_field body ''description'') \<or>
      not_nonempty_string (get_field body ''description'')) \<and>
   (''Category is required and must be a non-empty string''
      \<in> set (validateResource_errors body)) =
     (\<not> truthy (get_field body ''category'') \<or>
      not_nonempty_string (get_field body ''category'')) \<and>
   (''Price is required and must be a non-negative number''
      \<in> set (validateResource_errors body)) =
     (get_field body ''price'' = JUndefined \<or> not_nonneg_number (get_field body ''price'')) \<and>
   (''Quantity is required and must be a non-negative integer''
      \<in> set (validateResource_errors body)) =
     (get_field body ''quantity'' = JUndefined \<or>
      not_nonneg_integer (get_field body ''quantity'')) \<and>
   distinct (validateResource_errors body) \<and>
   (validateResource body = Next) = (validateResource_errors body = []) \<and>
   validateResource_errors body =
     filter (\<lambda>m. m \<in> set (validateResource_errors body))
       [''Name is required and must be a non-empty string'',
        ''Description is required and must be a non-empty string'',
        ''Category is required and must be a non-empty string'',
        ''Price is required and must be a non-negative number'',
        ''Quantity is required and must be a non-negative integer''] \<and>
   validateResource body =
     (if validateResource_errors body = [] then Next
      else Respond ((json 400 False)\<lparr>errors := Some (validateResource_errors body)\<rparr>))"
proof -
  have scenario: "validateResource [(''name'', JStr ''Test'')] =
     Respond ((json 400 False)\<lparr>errors := Some
       [''Description is required and must be a non-empty string'',
        ''Category is required and must be a non-empty string'',
        ''Price is required and must be a non-negative number'',
        ''Quantity is required and must be a non-negative integer'']\<rparr>)"
    unfolding validateResource_def validateResource_errors_name_only by simp
  have four: "length (validateResource_errors [(''name'', JStr ''Test'')]) = 4"
    unfolding validateResource_errors_name_only by simp
  have each:
    "(''Name is required and must be a non-empty string'' \<in> set (validateResource_errors body)) =
       (\<not> truthy (get_field body ''name'') \<or> not_nonempty_string (get_field body ''name''))"
    "(''Description is required and must be a non-empty string''
        \<in> set (validateResource_errors body)) =
       (\<not> truthy (get_field body ''description'') \<or>
        not_nonempty_string (get_field body ''description''))"
    "(''Category is required and must be a non-empty string''
        \<in> set (validateResource_errors body)) =
       (\<not> truthy (get_field body ''category'') \<or>
        not_nonempty_string (get_field body ''category''))"
    "(''Price is required and must be a non-negative number''
        \<in> set (validateResource_errors body)) =
       (get_field body ''price'' = JUndefined \<or> not_nonneg_number (get_field body ''price''))"
    "(''Quantity is required and must be a non-negative integer''
        \<in> set (validateResource_errors body)) =
       (get_field body ''quantity'' = JUndefined \<or>
        not_nonneg_integer (get_field body ''quantity''))"
    by (simp_all add: validateResource_errors_def Let_def)
  have no_repeat: "distinct (validateResource_errors body)"
    by (simp add: validateResource_errors_def Let_def)
  have pass: "(validateResource body = Next) = (validateResource_errors body = [])"
    by (simp add: validateResource_def Let_def)
  have answer: "validateResource body =
     (if validateResource_errors body = [] then Next
      else Respond ((json 400 False)\<lparr>errors := Some (validateResource_errors body)\<rparr>))"
    by (simp add: validateResource_def Let_def)
  have in_order: "validateResource_errors body =
     filter (\<lambda>m. m \<in> set (validateResource_errors body))
       [''Name is required and must be a non-empty string'',
        ''Description is required and must be a non-empty string'',
        ''Category is required and must be a non-empty string'',
        ''Price is required and must be a non-negative number'',
        ''Quantity is required and must be a non-negative integer'']"
    by (rule pick_in_order [OF _ validateResource_errors_rules]) simp
  from scenario four each no_repeat pass in_order answer show ?thesis
    by blast
qed

theorem validateResource_collects_every_violation_witness:
  "validateResource_errors [(''price'', JNum (Fin (- 10)))] =
     [''Name is required and must be a non-empty string'',
      ''Description is required and must be a non-empty string'',
      ''Category is required and must be a non-empty string'',
      ''Price is required and must be a non-negative number'',
      ''Quantity is required and must be a non-negative integer''] \<and>
   ''Price is required and must be a non-negative number''
     \<in> set (validateResource_errors [(''price'', JNum (Fin (- 10)))]) \<and>
   not_nonneg_number (get_field [(''price'', JNum (Fin (- 10)))] ''price'') \<and>
   validateResource [(''price'', JNum (Fin (- 10)))] =
     Respond ((json 400 False)\<lparr>errors := Some
       [''Name is required and must be a non-empty string'',
        ''Description is required and must be a non-empty string'',
        ''Category is required and must be a non-empty string'',
        ''Price is required and must be a non-negative number'',
        ''Quantity is required and must be a non-negative integer'']\<rparr>)"
  using validateResource_collects_every_violation [of "[(''price'', JNum (Fin (- 10)))]"]
  by (simp add: validateResource_errors_def get_field_def not_nonempty_string_def
      not_nonneg_number_def not_nonneg_integer_def)

text \<open>
  C10. Some creation payload passes the creation validator although its price is not a
  non-negative number: with \<open>NaN\<close> as price (and the other four fields valid) the validator
  calls \<open>next()\<close>, because \<open>NaN < 0\<close> is false; \<open>NaN >= 0\<close> is false as well.
\<close>

theorem validateResource_accepts_NaN_price:
  "validateResource
     [(''name'', JStr ''Laptop''), (''description'', JStr ''High-performance laptop''),
      (''category'', JStr ''Electronics''), (''price'', JNum NaN),
      (''quantity'', JNum (Fin 5))] = Next \<and>
   \<not> js_lt NaN (Fin 0) \<and> \<not> js_ge NaN (Fin 0)"
  by (simp add: validateResource_def validateResource_errors_def get_field_def
      not_nonempty_string_def not_nonneg_number_def not_nonneg_integer_def
      trim_def is_ws_def js_ge_def js_le_def)

theorem validateResource_accepts_NaN_price_witness:
  "validateResource_errors
     [(''name'', JStr ''Laptop''), (''description'', JStr ''High-performance laptop''),
      (''category'', JStr ''Electronics''), (''price'', JNum NaN),
      (''quantity'', JNum (Fin 5))] = []"
  using validateResource_accepts_NaN_price
  by (simp add: validateResource_def Let_def split: if_splits)

subsection \<open>The error translator\<close>

lemma errorHandler_details_gated:
  "\<not> str_includes m ''SQLITE_CONSTRAINT'' \<Longrightarrow>
   details (errorHandler env m) = (if env = Some ''development'' then Some m else None)"
  by (simp add: errorHandler_def)

text \<open>
  C4 (the code departs from the claim). In production mode a constraint violation is
  answered with the error's message in \<open>details\<close>: the first branch of \<open>errorHandler\<close> does
  not look at \<open>NODE_ENV\<close>, unlike the two branches after it
  (\<open>errorHandler_details_gated\<close>).
\<close>

theorem errorHandler_constraint_details_in_production:
  "errorHandler (Some ''production'')
     ''SQLITE_CONSTRAINT: CHECK constraint failed: price >= 0'' =
     (json 400 False)\<lparr>error := Some ''Database constraint violation'',
       details := Some ''SQLITE_CONSTRAINT: CHECK constraint failed: price >= 0''\<rparr>"
  by (simp add: errorHandler_def)

theorem errorHandler_constraint_details_in_production_witness:
  "details (errorHandler (Some ''production'')
     ''SQLITE_CONSTRAINT: CHECK constraint failed: price >= 0'') \<noteq> None"
  using errorHandler_constraint_details_in_production
  by simp

subsection \<open>Statements the repository sends\<close>

lemmas parse_simps = parse_sql_def normalize_sql_def sql_space_def strip_prefix_def
  parse_conds.simps cond_of_def parse_assigns.simps assign_of_def

lemma parse_select_by_id:
  "parse_sql ''SELECT * FROM resources WHERE id = ?'' = Some SelectById"
  by (simp add: parse_simps)

lemma parse_insert: "parse_sql insert_sql = Some InsertResource"
  by (simp add: insert_sql_def parse_simps)

lemma parse_last_rowid:
  "parse_sql ''SELECT last_insert_rowid() as id'' = Some SelectLastInsertRowid"
  by (simp add: parse_simps)

lemma parse_delete:
  "parse_sql ''DELETE FROM resources WHERE id = ?'' = Some DeleteById"
  by (simp add: parse_simps)

lemma js_row_laptop: "js_row laptop = ResourceRow laptop"
  by (simp add: js_row_def laptop_def nearest_double_def round_nat_def)

lemma findById_eq:
  "findById d i =
     (Inr (case filter (has_id (Fin (of_int i))) (rows d) of [] \<Rightarrow> None | r # _ \<Rightarrow> Some (js_row r)),
      d\<lparr>executed := executed d @ [(''SELECT * FROM resources WHERE id = ?'', [id_param i])]\<rparr>)"
  by (simp add: findById_def getQuery_def exec_def parse_select_by_id id_param_def Let_def
      split: list.splits)

lemma parseInt_abc: "parseInt ''abc'' = None"
  by (simp add: parseInt_def is_ws_def is_digit_def digit_value_def digits_value_def)

lemma parseInt_12abc: "parseInt ''12abc'' = Some 12"
  by (simp add: parseInt_def is_ws_def is_digit_def digit_value_def digits_value_def)

text \<open>
  C3 (amended). \<open>GET /:id\<close> answers 400 "Invalid resource ID" exactly when \<open>parseInt\<close>
  of the path parameter is \<open>NaN\<close>, and exactly then no statement reaches the store and
  the connection is as before; \<open>GET /abc\<close> is such a request.
\<close>

theorem get_resource_invalid_id_iff_parseInt_NaN:
  "(fst (get_resource_handler d params_id) =
      Sent ((json 400 False)\<lparr>error := Some ''Invalid resource ID''\<rparr>)) = (parseInt params_id = None) \<and>
   (snd (get_resource_handler d params_id) = d) = (parseInt params_id = None) \<and>
   (executed (snd (get_resource_handler d params_id)) = executed d) = (parseInt params_id = None) \<and>
   get_resource_handler d ''abc'' =
     (Sent ((json 400 False)\<lparr>error := Some ''Invalid resource ID''\<rparr>), d)"
proof (cases "parseInt params_id")
  case None
  then show ?thesis
    by (simp add: get_resource_handler_def parseInt_abc)
next
  case (Some i)
  have neq: "d\<lparr>executed := executed d @ [x]\<rparr> \<noteq> d" for x
  proof
    assume "d\<lparr>executed := executed d @ [x]\<rparr> = d"
    then have "executed (d\<lparr>executed := executed d @ [x]\<rparr>) = executed d"
      by simp
    then show False by simp
  qed
  show ?thesis
    using Some neq
    by (simp add: get_resource_handler_def parseInt_abc findById_eq json_def split: list.splits)
qed

text \<open>
  C3 as stated fails: \<open>12abc\<close> is not a well-formed number, yet \<open>parseInt\<close> reads its
  prefix \<open>12\<close>, the repository looks up id 12, and the answer is 404.
\<close>

theorem get_resource_12abc_reaches_repository:
  "get_resource_handler (initial_database 0) ''12abc'' =
     (Sent ((json 404 False)\<lparr>error := Some ''Resource not found''\<rparr>),
      (initial_database 0)\<lparr>executed :=
         [(''SELECT * FROM resources WHERE id = ?'', [PNum (Fin 12)])]\<rparr>)"
  by (simp add: get_resource_handler_def parseInt_12abc findById_eq initial_database_def id_param_def)

lemma parseInt_1: "parseInt ''1'' = Some 1"
  by (simp add: parseInt_def is_ws_def is_digit_def digit_value_def digits_value_def)

theorem get_resource_invalid_id_iff_parseInt_NaN_witness:
  "get_resource_handler example_database ''1'' =
     (Sent ((json 200 True)\<lparr>data := One (ResourceRow laptop)\<rparr>),
      example_database\<lparr>executed :=
        [(''SELECT * FROM resources WHERE id = ?'', [PNum (Fin 1)])]\<rparr>) \<and>
   get_resource_handler example_database ''abc'' =
     (Sent ((json 400 False)\<lparr>error := Some ''Invalid resource ID''\<rparr>), example_database)"
  using get_resource_invalid_id_iff_parseInt_NaN [of example_database "''1''"] js_row_laptop
  by (simp add: get_resource_handler_def parseInt_1 findById_eq example_database_def
      has_id_def laptop_def id_param_def)

subsection \<open>The result of \<open>update\<close>\<close>

lemma update_fields_clauses:
  "update_fields u = (map assign_text (map fst (set_clauses u)), map snd (set_clauses u))"
  by (cases "name' u"; cases "description' u"; cases "category' u"; cases "price' u";
      cases "quantity' u"; simp add: update_fields_def set_clauses_def)

lemma assign_of_text: "assign_of (assign_text c @ r) = Some (c, r)"
  by (cases c) (simp_all add: assign_of_def strip_prefix_def)

lemma strip_comma: "strip_prefix '', '' ('', '' @ r) = Some r"
  by (simp add: strip_prefix_def)

lemma strip_comma_where: "strip_prefix '', '' '' WHERE id = ?'' = None"
  by (simp add: strip_prefix_def)

lemma parse_assigns_text:
  "cols \<noteq> [] \<Longrightarrow>
   parse_assigns (join '', '' (map assign_text cols) @ '' WHERE id = ?'') =
     Some (cols, '' WHERE id = ?'')"
proof (induction cols rule: list_nonempty_induct)
  case (single c)
  show ?case
    using assign_of_text [of c "'' WHERE id = ?''"] strip_comma_where
    by (subst parse_assigns.simps) simp
next
  case (cons c cs)
  then obtain c' cs' where cs: "cs = c' # cs'"
    by (cases cs) auto
  have j: "join '', '' (map assign_text (c # cs)) @ '' WHERE id = ?'' =
      assign_text c @ ('', '' @ (join '', '' (map assign_text cs) @ '' WHERE id = ?''))"
    by (simp add: cs)
  show ?case
    unfolding j
    using assign_of_text [of c "'', '' @ (join '', '' (map assign_text cs) @ '' WHERE id = ?'')"]
      strip_comma [of "join '', '' (map assign_text cs) @ '' WHERE id = ?''"] cons.IH
    by (subst parse_assigns.simps) (simp del: append_assoc)
qed

lemma squeeze_assign_text: "squeeze True (assign_text c @ r) = assign_text c @ squeeze False r"
  by (cases c) (simp_all add: sql_space_def)

lemma squeeze_comma: "squeeze False ('', '' @ r) = '', '' @ squeeze True r"
  by (simp add: sql_space_def)

lemma squeeze_assigns:
  "cols \<noteq> [] \<Longrightarrow>
   squeeze True (join '', '' (map assign_text cols) @ r) =
     join '', '' (map assign_text cols) @ squeeze False r"
proof (induction cols rule: list_nonempty_induct)
  case (single c)
  show ?case
    by (simp add: squeeze_assign_text)
next
  case (cons c cs)
  then obtain c' cs' where cs: "cs = c' # cs'"
    by (cases cs) auto
  have j: "join '', '' (map assign_text (c # cs)) @ r =
      assign_text c @ ('', '' @ (join '', '' (map assign_text cs) @ r))"
    by (simp add: cs)
  show ?case
    unfolding j squeeze_assign_text squeeze_comma cons.IH
    by (simp add: cs)
qed

lemma normalize_update:
  assumes "cols \<noteq> []"
  shows "normalize_sql (update_sql (map assign_text cols)) = update_sql (map assign_text cols)"
proof -
  have head: "squeeze True (''UPDATE resources SET '' @ x) =
      ''UPDATE resources SET '' @ squeeze True x" for x
    by (simp add: sql_space_def)
  have tail: "squeeze False '' WHERE id = ?'' = '' WHERE id = ?''"
    by (simp add: sql_space_def)
  have trail: "rev (dropWhile sql_space (rev (x @ '' WHERE id = ?''))) = x @ '' WHERE id = ?''"
    for x
    by (simp add: sql_space_def)
  show ?thesis
    unfolding normalize_sql_def update_sql_def head squeeze_assigns [OF assms] tail
    using trail [of "''UPDATE resources SET '' @ join '', '' (map assign_text cols)"]
    by simp
qed

lemma parse_update:
  assumes "cols \<noteq> []"
  shows "parse_sql (update_sql (map assign_text cols)) = Some (UpdateById cols)"
proof -
  define rest where "rest = join '', '' (map assign_text cols) @ '' WHERE id = ?''"
  have sql: "update_sql (map assign_text cols) = ''UPDATE resources SET '' @ rest"
    by (simp add: update_sql_def rest_def)
  have other: "''UPDATE resources SET '' @ x \<noteq>
        ''INSERT INTO resources (name, description, category, price, quantity) VALUES (?, ?, ?, ?, ?)''"
      "''UPDATE resources SET '' @ x \<noteq> ''SELECT last_insert_rowid() as id''"
      "''UPDATE resources SET '' @ x \<noteq> ''SELECT * FROM resources WHERE id = ?''"
      "''UPDATE resources SET '' @ x \<noteq> ''DELETE FROM resources WHERE id = ?''"
      "strip_prefix ''SELECT * FROM resources WHERE 1=1'' (''UPDATE resources SET '' @ x) = None"
      "strip_prefix ''UPDATE resources SET '' (''UPDATE resources SET '' @ x) = Some x"
    for x
    by (simp_all add: strip_prefix_def)
  have pa: "parse_assigns rest = Some (cols, '' WHERE id = ?'')"
    unfolding rest_def by (rule parse_assigns_text [OF assms])
  show ?thesis
    unfolding parse_sql_def normalize_update [OF assms] Let_def
    unfolding sql
    by (simp only: other if_False option.case pa prod.case) simp
qed

lemma update_rows_untouched: "list_all (\<lambda>r. \<not> P r) rs \<Longrightarrow> update_rows f P rs = Inr rs"
  by (induction rs) simp_all

lemma update_unknown_id:
  assumes "list_all (\<lambda>r. id' r \<noteq> i) (rows d)"
  shows "fst (update d i u) = False \<and> rows (snd (update d i u)) = rows d"
proof -
  define cl where "cl = set_clauses u"
  define sql where "sql = update_sql (map assign_text (map fst cl))"
  have uf: "update_fields u = (map assign_text (map fst cl), map snd cl)"
    unfolding cl_def by (rule update_fields_clauses)
  show ?thesis
  proof (cases "cl = []")
    case True
    then show ?thesis
      by (simp add: update_def uf)
  next
    case False
    then have "map fst cl \<noteq> []" by simp
    then have parse: "parse_sql sql = Some (UpdateById (map fst cl))"
      unfolding sql_def by (rule parse_update)
    have none: "list_all (\<lambda>r. \<not> has_id (Fin (of_int i)) r) (rows d)"
      using assms by (auto simp: has_id_def list_all_iff)
    have "filter (has_id (Fin (of_int i))) (rows d) = []"
      using none by (simp add: list_all_iff filter_empty_conv)
    then have "runQuery d sql (map snd cl @ [id_param i]) =
        (Inr 0, d\<lparr>executed := executed d @ [(sql, map snd cl @ [id_param i])]\<rparr>)"
      using update_rows_untouched [OF none]
      by (simp add: runQuery_def exec_def parse id_param_def)
    then show ?thesis
      using False by (simp add: update_def uf sql_def)
  qed
qed

lemma update_fields_empty:
  "(fst (update_fields u) = []) =
     (name' u = None \<and> description' u = None \<and> category' u = None \<and> price' u = None \<and>
      quantity' u = None)"
  by (simp add: update_fields_def split: option.splits)

text \<open>
  C1 (amended). \<open>update\<close> returns true exactly when at least one field is supplied and
  the store resolves the \<open>UPDATE\<close> with a positive count of affected rows. It returns
  false when no field is supplied (all five are \<open>undefined\<close>), when the count is zero,
  as it is when no row has that id, and also when the store rejects the statement.
\<close>

theorem update_returns_false_iff:
  "fst (update d i u) =
     (fst (update_fields u) \<noteq> [] \<and>
      (\<exists>n. fst (runQuery d (update_sql (fst (update_fields u)))
                  (snd (update_fields u) @ [id_param i])) = Inr n \<and> 0 < n)) \<and>
   (fst (update_fields u) = []) =
     (name' u = None \<and> description' u = None \<and> category' u = None \<and> price' u = None \<and>
      quantity' u = None) \<and>
   (list_all (\<lambda>r. id' r \<noteq> i) (rows d) \<longrightarrow>
      fst (update d i u) = False \<and> rows (snd (update d i u)) = rows d)"
proof -
  obtain flds vals where fv: "update_fields u = (flds, vals)"
    by (cases "update_fields u")
  obtain res d' where rq: "runQuery d (update_sql flds) (vals @ [id_param i]) = (res, d')"
    by (cases "runQuery d (update_sql flds) (vals @ [id_param i])")
  have "fst (update d i u) =
     (flds \<noteq> [] \<and> (\<exists>n. res = Inr n \<and> 0 < n))"
    using fv rq by (cases res) (auto simp: update_def Let_def)
  then show ?thesis
    using fv rq update_fields_empty [of u] update_unknown_id [of i d u] by simp
qed

lemma parse_update_price:
  "parse_sql ''UPDATE resources SET price = ? WHERE id = ?'' = Some (UpdateById [Price])"
  by (simp add: parse_simps)

text \<open>
  C1 as stated fails: with a row of id 1 in the table and the one field \<open>price = -1\<close>
  supplied, the store reports no count at all: it rejects the statement (the \<open>CHECK\<close>
  constraint), and \<open>update\<close> returns false from its \<open>catch\<close>.
\<close>

theorem update_false_on_constraint_error:
  "update example_database 1 (no_updates\<lparr>price' := Some (Fin (- 1))\<rparr>) =
     (False, example_database\<lparr>executed :=
        [(''UPDATE resources SET price = ? WHERE id = ?'', [PNum (Fin (- 1)), PNum (Fin 1)])]\<rparr>) \<and>
   fst (update_fields (no_updates\<lparr>price' := Some (Fin (- 1))\<rparr>)) = [''price = ?''] \<and>
   fst (runQuery example_database ''UPDATE resources SET price = ? WHERE id = ?''
         [PNum (Fin (- 1)), PNum (Fin 1)]) =
     Inl (Error ''SQLITE_CONSTRAINT: CHECK constraint failed: price >= 0'') \<and>
   map id' (rows example_database) = [1]"
  by (simp add: update_def update_fields_def no_updates_def update_sql_def id_param_def
      runQuery_def exec_def parse_update_price example_database_def has_id_def laptop_def
      update_row_def check_row_def js_ge_def js_le_def)

text \<open>
  C7. An update that supplies none of the five fields returns failure and leaves the
  connection exactly as it was: no statement is issued, so no row changes and no
  \<open>updated_at\<close> is touched. The same holds for \<open>PUT /:id\<close> with a body in which the
  five properties are all \<open>undefined\<close>: the answer is a failure (400 or 404).
\<close>

theorem update_without_fields_changes_nothing:
  "update d i no_updates = (False, d) \<and>
   (get_field body ''name'' = JUndefined \<and> get_field body ''description'' = JUndefined \<and>
    get_field body ''category'' = JUndefined \<and> get_field body ''price'' = JUndefined \<and>
    get_field body ''quantity'' = JUndefined \<longrightarrow>
    (\<exists>r. put_resource d params_id body = (Sent r, d) \<and> \<not> success r \<and>
         (status r = 400 \<or> status r = 404)))"
proof -
  have model: "update d i no_updates = (False, d)" for i
    by (simp add: update_def update_fields_def no_updates_def)
  have route: "\<exists>r. put_resource d params_id body = (Sent r, d) \<and> \<not> success r \<and>
         (status r = 400 \<or> status r = 404)"
    if undef: "get_field body ''name'' = JUndefined" "get_field body ''description'' = JUndefined"
      "get_field body ''category'' = JUndefined" "get_field body ''price'' = JUndefined"
      "get_field body ''quantity'' = JUndefined"
  proof -
    have errs: "validateResourceUpdate_errors body = []"
      using undef by (simp add: validateResourceUpdate_errors_def)
    have upd: "as_updates body = no_updates"
      using undef by (simp add: as_updates_def no_updates_def)
    show ?thesis
    proof (cases "recognized_keys body = []")
      case True
      then show ?thesis
        using errs by (simp add: put_resource_def validateResourceUpdate_def json_def)
    next
      case False
      then have nxt: "validateResourceUpdate body = Next"
        using errs by (simp add: validateResourceUpdate_def)
      show ?thesis
      proof (cases "parseInt params_id")
        case None
        then show ?thesis
          using nxt by (simp add: put_resource_def put_resource_handler_def json_def)
      next
        case (Some j)
        then show ?thesis
          using nxt upd model [of j]
          by (simp add: put_resource_def put_resource_handler_def json_def)
      qed
    qed
  qed
  from model route show ?thesis
    by blast
qed

lemma parse_update_name:
  "parse_sql ''UPDATE resources SET name = ? WHERE id = ?'' = Some (UpdateById [Name])"
  by (simp add: parse_simps)

theorem update_returns_false_iff_witness:
  "update example_database 1 (no_updates\<lparr>name' := Some ''Updated Product''\<rparr>) =
     (True, example_database
        \<lparr>rows := [laptop\<lparr>name := ''Updated Product'', updated_at := 200\<rparr>],
         executed := [(''UPDATE resources SET name = ? WHERE id = ?'',
                       [PText ''Updated Product'', PNum (Fin 1)])]\<rparr>) \<and>
   fst (update example_database 99999 (no_updates\<lparr>name' := Some ''Updated''\<rparr>)) = False \<and>
   fst (update example_database 1 no_updates) = False"
  using update_returns_false_iff [of example_database 1
      "no_updates\<lparr>name' := Some ''Updated Product''\<rparr>"]
  by (simp add: update_def update_fields_def no_updates_def update_sql_def id_param_def
      runQuery_def exec_def parse_update_name example_database_def has_id_def laptop_def
      update_row_def check_row_def js_ge_def js_le_def)

theorem update_without_fields_changes_nothing_witness:
  "put_resource example_database ''1'' [] =
     (Sent ((json 400 False)\<lparr>error := Some ''No valid fields to update''\<rparr>),
      example_database) \<and>
   update example_database 1 no_updates = (False, example_database)"
  using update_without_fields_changes_nothing [of example_database 1 "[]" "''1''"]
  by (simp add: put_resource_def validateResourceUpdate_def validateResourceUpdate_errors_def
      recognized_keys_def get_field_def)

subsection \<open>The \<open>LIMIT\<close> clause of \<open>findAll\<close>\<close>

lemma parse_select_all:
  "parse_sql ''SELECT * FROM resources WHERE 1=1 ORDER BY created_at DESC'' =
     Some (SelectWhere [] False False)"
  by (simp add: parse_simps)

lemma order_one: "order_by_created_desc [r] = [r]"
  by (simp add: order_by_created_desc_def)

lemma parseInt_0: "parseInt ''0'' = Some 0"
  by (simp add: parseInt_def is_ws_def is_digit_def digit_value_def digits_value_def)

lemma findAll_query_zero_limit:
  "findAll_query (no_filters\<lparr>limit := Some (Fin 0)\<rparr>) =
     (''SELECT * FROM resources WHERE 1=1 ORDER BY created_at DESC'', [])"
  by (simp add: findAll_query_def no_filters_def)

text \<open>
  C2 as stated fails: an explicit limit of 0 is not passed into the query. The text
  and parameters are those of a call without limit, and the page is not empty.
  \<open>?limit=0\<close> at the route gives \<open>findAll\<close> exactly this limit.
\<close>

theorem findAll_explicit_zero_limit_is_dropped:
  "findAll_query (no_filters\<lparr>limit := Some (Fin 0)\<rparr>) =
     (''SELECT * FROM resources WHERE 1=1 ORDER BY created_at DESC'', []) \<and>
   findAll_query (no_filters\<lparr>limit := Some (Fin 0)\<rparr>) = findAll_query no_filters \<and>
   limit (list_filters (\<lambda>s. NaN) [(''limit'', ''0'')]) = Some (Fin 0) \<and>
   fst (findAll example_database (no_filters\<lparr>limit := Some (Fin 0)\<rparr>)) =
     Inr [ResourceRow laptop]"
proof -
  have q0: "findAll_query no_filters =
     (''SELECT * FROM resources WHERE 1=1 ORDER BY created_at DESC'', [])"
    by (simp add: findAll_query_def no_filters_def)
  have r: "limit (list_filters (\<lambda>s. NaN) [(''limit'', ''0'')]) = Some (Fin 0)"
    by (simp add: list_filters_def parseInt_0 number_of_def)
  have f: "fst (findAll example_database (no_filters\<lparr>limit := Some (Fin 0)\<rparr>)) =
     Inr [ResourceRow laptop]"
    unfolding findAll_def findAll_query_zero_limit
    by (simp add: allQuery_def exec_def parse_select_all example_database_def order_one
        js_row_laptop select_where_def apply_limit_def apply_offset_def)
  from findAll_query_zero_limit q0 r f show ?thesis
    by simp
qed

text \<open>
  C2 (amended). \<open>findAll\<close> omits the \<open>LIMIT\<close> clause whenever \<open>filters.limit\<close> is falsy,
  that is absent, \<open>0\<close> or \<open>NaN\<close>: the query is then that of the same filters without
  limit. Any other limit is appended as \<open>LIMIT ?\<close> with the value bound. The route
  passes 50 when the query parameter is absent or empty, and otherwise what \<open>parseInt\<close>
  makes of it.
\<close>

theorem findAll_limit_clause:
  "((case limit f of None \<Rightarrow> True | Some l \<Rightarrow> l = NaN \<or> l = Fin 0) \<longrightarrow>
      findAll_query f = findAll_query (f\<lparr>limit := None\<rparr>) \<and>
      findAll d f = findAll d (f\<lparr>limit := None\<rparr>)) \<and>
   (limit f = Some l \<and> l \<noteq> NaN \<and> l \<noteq> Fin 0 \<longrightarrow>
      findAll_query (f\<lparr>offset := None\<rparr>) =
        (fst (findAll_query (f\<lparr>limit := None, offset := None\<rparr>)) @ '' LIMIT ?'',
         snd (findAll_query (f\<lparr>limit := None, offset := None\<rparr>)) @ [PNum l])) \<and>
   limit (list_filters pf q) =
     Some (case map_of q ''limit'' of
             None \<Rightarrow> Fin 50
           | Some s \<Rightarrow> if s = [] then Fin 50 else number_of (parseInt s))"
proof -
  have t: "truthy_num l = (l \<noteq> NaN \<and> l \<noteq> Fin 0)" for l
    by (cases l) simp_all
  have a: "findAll_query f = findAll_query (f\<lparr>limit := None\<rparr>)"
    if "case limit f of None \<Rightarrow> True | Some l \<Rightarrow> l = NaN \<or> l = Fin 0"
    using that by (auto simp: findAll_query_def split: option.splits)
  then have a': "findAll d f = findAll d (f\<lparr>limit := None\<rparr>)"
    if "case limit f of None \<Rightarrow> True | Some l \<Rightarrow> l = NaN \<or> l = Fin 0"
    using that by (simp add: findAll_def)
  have b: "findAll_query (f\<lparr>offset := None\<rparr>) =
        (fst (findAll_query (f\<lparr>limit := None, offset := None\<rparr>)) @ '' LIMIT ?'',
         snd (findAll_query (f\<lparr>limit := None, offset := None\<rparr>)) @ [PNum l])"
    if "limit f = Some l" "l \<noteq> NaN" "l \<noteq> Fin 0"
    using that t [of l]
    by (cases "name_like f"; cases "category_is f"; cases "min_price f"; cases "max_price f";
        simp add: findAll_query_def Let_def)
  have c: "limit (list_filters pf q) =
     Some (case map_of q ''limit'' of
             None \<Rightarrow> Fin 50
           | Some s \<Rightarrow> if s = [] then Fin 50 else number_of (parseInt s))"
    by (simp add: list_filters_def split: option.splits)
  from a a' b c show ?thesis
    by blast
qed

theorem findAll_limit_clause_witness:
  "findAll_query (no_filters\<lparr>limit := Some NaN\<rparr>) = findAll_query no_filters \<and>
   findAll_query (no_filters\<lparr>limit := Some (Fin 10)\<rparr>) =
     (''SELECT * FROM resources WHERE 1=1 ORDER BY created_at DESC LIMIT ?'', [PNum (Fin 10)]) \<and>
   limit (list_filters (\<lambda>s. NaN) []) = Some (Fin 50)"
  using findAll_limit_clause [of "no_filters\<lparr>limit := Some NaN\<rparr>" example_database NaN
      "\<lambda>s. NaN" "[]"]
    findAll_limit_clause [of "no_filters\<lparr>limit := Some (Fin 10)\<rparr>" example_database "Fin 10"
      "\<lambda>s. NaN" "[]"]
  by (simp add: no_filters_def findAll_query_def)

subsection \<open>The name filter of \<open>findAll\<close>\<close>

lemma str_includes_iff: "str_includes t sub = (\<exists>a b. t = a @ sub @ b)"
proof (induction t)
  case Nil
  show ?case by auto
next
  case (Cons c cs)
  show ?case
  proof
    assume "str_includes (c # cs) sub"
    then consider "prefix sub (c # cs)" | "str_includes cs sub"
      by auto
    then show "\<exists>a b. c # cs = a @ sub @ b"
    proof cases
      case 1
      then obtain b where "c # cs = sub @ b"
        by (auto simp: prefix_def)
      then have "c # cs = [] @ sub @ b" by simp
      then show ?thesis by blast
    next
      case 2
      then obtain a b where "cs = a @ sub @ b"
        using Cons.IH by auto
      then have "c # cs = (c # a) @ sub @ b" by simp
      then show ?thesis by blast
    qed
  next
    assume "\<exists>a b. c # cs = a @ sub @ b"
    then obtain a b where ab: "c # cs = a @ sub @ b"
      by blast
    show "str_includes (c # cs) sub"
    proof (cases a)
      case Nil
      then have "prefix sub (c # cs)"
        using ab by (simp add: prefix_def)
      then show ?thesis by simp
    next
      case (Cons x a')
      then have "cs = a' @ sub @ b"
        using ab by simp
      then have "str_includes cs sub"
        using Cons.IH by blast
      then show ?thesis by simp
    qed
  qed
qed

lemma pattern_compare_percent: "pattern_compare (CHR ''%'' # p) t = (\<exists>ys zs. t = ys @ zs \<and> pattern_compare p zs)"
proof (induction t)
  case Nil
  show ?case by simp
next
  case (Cons c cs)
  have "pattern_compare (CHR ''%'' # p) (c # cs) = (pattern_compare p (c # cs) \<or> pattern_compare (CHR ''%'' # p) cs)"
    by simp
  also have "\<dots> = (pattern_compare p (c # cs) \<or> (\<exists>ys zs. cs = ys @ zs \<and> pattern_compare p zs))"
    using Cons.IH by simp
  also have "\<dots> = (\<exists>ys zs. c # cs = ys @ zs \<and> pattern_compare p zs)"
  proof
    assume "pattern_compare p (c # cs) \<or> (\<exists>ys zs. cs = ys @ zs \<and> pattern_compare p zs)"
    then show "\<exists>ys zs. c # cs = ys @ zs \<and> pattern_compare p zs"
    proof
      assume "pattern_compare p (c # cs)"
      then have "c # cs = [] @ (c # cs) \<and> pattern_compare p (c # cs)" by simp
      then show ?thesis by blast
    next
      assume "\<exists>ys zs. cs = ys @ zs \<and> pattern_compare p zs"
      then obtain ys zs where "cs = ys @ zs" "pattern_compare p zs" by blast
      then have "c # cs = (c # ys) @ zs \<and> pattern_compare p zs" by simp
      then show ?thesis by blast
    qed
  next
    assume "\<exists>ys zs. c # cs = ys @ zs \<and> pattern_compare p zs"
    then obtain ys zs where yz: "c # cs = ys @ zs" "pattern_compare p zs" by blast
    show "pattern_compare p (c # cs) \<or> (\<exists>ys zs. cs = ys @ zs \<and> pattern_compare p zs)"
    proof (cases ys)
      case Nil
      then show ?thesis using yz by simp
    next
      case (Cons y ys')
      then have "cs = ys' @ zs" using yz by simp
      then show ?thesis using yz by blast
    qed
  qed
  finally show ?case .
qed

lemma pattern_compare_only_percent: "pattern_compare ''%'' t"
  by (induction t) simp_all

lemma pattern_compare_literal:
  "CHR ''%'' \<notin> set s \<Longrightarrow> CHR ''_'' \<notin> set s \<Longrightarrow>
   pattern_compare (s @ q) t =
     (\<exists>t1 t2. t = t1 @ t2 \<and> map ascii_lower t1 = map ascii_lower s \<and> pattern_compare q t2)"
proof (induction s arbitrary: t)
  case Nil
  show ?case by simp
next
  case (Cons a s)
  then have a: "a \<noteq> CHR ''%''" "a \<noteq> CHR ''_''"
    and s: "CHR ''%'' \<notin> set s" "CHR ''_'' \<notin> set s"
    by auto
  show ?case
  proof (cases t)
    case Nil
    then show ?thesis using a by simp
  next
    case (Cons c cs)
    have "pattern_compare ((a # s) @ q) (c # cs) = (ascii_lower a = ascii_lower c \<and> pattern_compare (s @ q) cs)"
      using a by simp
    also have "\<dots> = (ascii_lower a = ascii_lower c \<and>
        (\<exists>t1 t2. cs = t1 @ t2 \<and> map ascii_lower t1 = map ascii_lower s \<and> pattern_compare q t2))"
      using Cons.IH [OF s] by simp
    also have "\<dots> = (\<exists>t1 t2. c # cs = t1 @ t2 \<and>
        map ascii_lower t1 = map ascii_lower (a # s) \<and> pattern_compare q t2)"
    proof
      assume "ascii_lower a = ascii_lower c \<and>
        (\<exists>t1 t2. cs = t1 @ t2 \<and> map ascii_lower t1 = map ascii_lower s \<and> pattern_compare q t2)"
      then obtain t1 t2 where "ascii_lower a = ascii_lower c" "cs = t1 @ t2"
        "map ascii_lower t1 = map ascii_lower s" "pattern_compare q t2"
        by blast
      then have "c # cs = (c # t1) @ t2 \<and>
        map ascii_lower (c # t1) = map ascii_lower (a # s) \<and> pattern_compare q t2"
        by simp
      then show "\<exists>t1 t2. c # cs = t1 @ t2 \<and>
        map ascii_lower t1 = map ascii_lower (a # s) \<and> pattern_compare q t2"
        by blast
    next
      assume "\<exists>t1 t2. c # cs = t1 @ t2 \<and>
        map ascii_lower t1 = map ascii_lower (a # s) \<and> pattern_compare q t2"
      then obtain t1 t2 where t: "c # cs = t1 @ t2"
        "map ascii_lower t1 = map ascii_lower (a # s)" "pattern_compare q t2"
        by blast
      from t(2) obtain x t1' where t1: "t1 = x # t1'"
        by (cases t1) auto
      with t have "x = c" "cs = t1' @ t2" "ascii_lower x = ascii_lower a"
        "map ascii_lower t1' = map ascii_lower s"
        by auto
      with t(3) show "ascii_lower a = ascii_lower c \<and>
        (\<exists>t1 t2. cs = t1 @ t2 \<and> map ascii_lower t1 = map ascii_lower s \<and> pattern_compare q t2)"
        by auto
    qed
    finally show ?thesis using Cons by simp
  qed
qed

lemma pattern_compare_contains:
  assumes "CHR ''%'' \<notin> set s" "CHR ''_'' \<notin> set s"
  shows "pattern_compare (''%'' @ s @ ''%'') t = str_includes (map ascii_lower t) (map ascii_lower s)"
proof -
  have "pattern_compare (''%'' @ s @ ''%'') t = (\<exists>ys zs. t = ys @ zs \<and> pattern_compare (s @ ''%'') zs)"
    using pattern_compare_percent [of "s @ ''%''" t] by simp
  also have "\<dots> = (\<exists>ys t1 t2. t = ys @ t1 @ t2 \<and> map ascii_lower t1 = map ascii_lower s)"
    using pattern_compare_literal [OF assms, of "''%''"] pattern_compare_only_percent by auto
  also have "\<dots> = (\<exists>a b. map ascii_lower t = a @ map ascii_lower s @ b)"
  proof
    assume "\<exists>ys t1 t2. t = ys @ t1 @ t2 \<and> map ascii_lower t1 = map ascii_lower s"
    then obtain ys t1 t2 where "t = ys @ t1 @ t2" "map ascii_lower t1 = map ascii_lower s"
      by blast
    then have "map ascii_lower t = map ascii_lower ys @ map ascii_lower s @ map ascii_lower t2"
      by simp
    then show "\<exists>a b. map ascii_lower t = a @ map ascii_lower s @ b"
      by blast
  next
    assume "\<exists>a b. map ascii_lower t = a @ map ascii_lower s @ b"
    then obtain a b where "map ascii_lower t = a @ map ascii_lower s @ b"
      by blast
    then have "\<exists>ys r. t = ys @ r \<and> a = map ascii_lower ys \<and>
        map ascii_lower s @ b = map ascii_lower r"
      by (simp only: map_eq_append_conv)
    then obtain ys r where r: "t = ys @ r" "map ascii_lower r = map ascii_lower s @ b"
      by auto
    from r(2) have "\<exists>t1 t2. r = t1 @ t2 \<and> map ascii_lower s = map ascii_lower t1 \<and>
        b = map ascii_lower t2"
      by (simp only: map_eq_append_conv)
    then obtain t1 t2 where "r = t1 @ t2" "map ascii_lower t1 = map ascii_lower s"
      by auto
    with r show "\<exists>ys t1 t2. t = ys @ t1 @ t2 \<and> map ascii_lower t1 = map ascii_lower s"
      by blast
  qed
  finally show ?thesis
    by (simp add: str_includes_iff)
qed

lemma cond_of_text: "cond_of (cond_text c @ r) = Some (c, r)"
  by (cases c) (simp_all add: cond_of_def strip_prefix_def)

lemma cond_of_order: "cond_of ('' ORDER BY created_at DESC'' @ r) = None"
  by (simp add: cond_of_def strip_prefix_def)

lemma parse_conds_text:
  "parse_conds (concat (map cond_text cs) @ '' ORDER BY created_at DESC'' @ r) =
     (cs, '' ORDER BY created_at DESC'' @ r)"
proof (induction cs)
  case Nil
  show ?case
    using cond_of_order [of r] by (subst parse_conds.simps) simp
next
  case (Cons c cs)
  show ?case
    using cond_of_text [of c "concat (map cond_text cs) @ '' ORDER BY created_at DESC'' @ r"]
      Cons.IH
    by (subst parse_conds.simps) simp
qed

lemma squeeze_cond_text: "squeeze False (cond_text c @ r) = cond_text c @ squeeze False r"
  by (cases c) (simp_all add: sql_space_def)

lemma squeeze_conds_text:
  "squeeze False (concat (map cond_text cs) @ r) = concat (map cond_text cs) @ squeeze False r"
  by (induction cs) (simp_all add: squeeze_cond_text)

lemma normalize_select_where:
  "normalize_sql (''SELECT * FROM resources WHERE 1=1'' @ concat (map cond_text cs) @
       '' ORDER BY created_at DESC'') =
     ''SELECT * FROM resources WHERE 1=1'' @ concat (map cond_text cs) @
       '' ORDER BY created_at DESC''"
proof -
  have head: "squeeze True (''SELECT * FROM resources WHERE 1=1'' @ x) =
      ''SELECT * FROM resources WHERE 1=1'' @ squeeze False x" for x
    by (simp add: sql_space_def)
  have order: "squeeze False '' ORDER BY created_at DESC'' = '' ORDER BY created_at DESC''"
    by (simp add: sql_space_def)
  have tail: "rev (dropWhile sql_space (rev (x @ '' ORDER BY created_at DESC''))) =
      x @ '' ORDER BY created_at DESC''" for x
    by (simp add: sql_space_def)
  show ?thesis
    unfolding normalize_sql_def head squeeze_conds_text order
    using tail [of "''SELECT * FROM resources WHERE 1=1'' @ concat (map cond_text cs)"]
    by simp
qed

lemma parse_select_where:
  "parse_sql (''SELECT * FROM resources WHERE 1=1'' @ concat (map cond_text cs) @
       '' ORDER BY created_at DESC'') = Some (SelectWhere cs False False)"
proof -
  have strip: "strip_prefix ''SELECT * FROM resources WHERE 1=1''
      (''SELECT * FROM resources WHERE 1=1'' @ x) = Some x" for x
    by (simp add: strip_prefix_def)
  have strip_order: "strip_prefix '' ORDER BY created_at DESC''
      ('' ORDER BY created_at DESC'' @ x) = Some x" for x
    by (simp add: strip_prefix_def)
  have pc: "parse_conds (concat (map cond_text cs) @ '' ORDER BY created_at DESC'') =
      (cs, '' ORDER BY created_at DESC'')"
    using parse_conds_text [of cs "[]"] by simp
  have other: "''SELECT * FROM resources WHERE 1=1'' @ x \<noteq>
        ''INSERT INTO resources (name, description, category, price, quantity) VALUES (?, ?, ?, ?, ?)''"
      "''SELECT * FROM resources WHERE 1=1'' @ x \<noteq> ''SELECT last_insert_rowid() as id''"
      "''SELECT * FROM resources WHERE 1=1'' @ x \<noteq> ''SELECT * FROM resources WHERE id = ?''"
      "''SELECT * FROM resources WHERE 1=1'' @ x \<noteq> ''DELETE FROM resources WHERE id = ?''"
    for x
    by simp_all
  show ?thesis
    unfolding parse_sql_def normalize_select_where Let_def
    using strip_order [of "[]"]
    by (simp only: other if_False strip option.case pc prod.case append_Nil2) simp
qed

lemma findAll_query_where:
  assumes "limit f = None" "offset f = None"
  shows "findAll_query f =
     (''SELECT * FROM resources WHERE 1=1'' @ concat (map cond_text (map fst (where_clauses f))) @
        '' ORDER BY created_at DESC'',
      map snd (where_clauses f))"
  using assms
  by (cases "name_like f"; cases "category_is f"; cases "min_price f"; cases "max_price f";
      simp add: findAll_query_def where_clauses_def Let_def)

lemma utf8_length_pattern: "utf8_length (''%'' @ s @ ''%'') = utf8_length s + 2"
  by (simp add: utf8_length_def)

lemma like_within:
  "utf8_length s \<le> 49998 \<Longrightarrow>
   like (''%'' @ s @ ''%'') t = Inr (pattern_compare (c_string (''%'' @ s @ ''%'')) (c_string t))"
  using utf8_length_pattern [of s] by (simp add: like_def del: append.simps)

lemma like_too_long:
  "49998 < utf8_length s \<Longrightarrow>
   like (''%'' @ s @ ''%'') t = Inl (Error ''SQLITE_ERROR: LIKE or GLOB pattern too complex'')"
  using utf8_length_pattern [of s] by (simp add: like_def del: append.simps)

lemma scan_filter: "scan (\<lambda>r. Inr (Q r)) rs = Inr (filter Q rs)"
  by (induction rs) simp_all

lemma scan_error: "rs \<noteq> [] \<Longrightarrow> scan (\<lambda>r. Inl e) rs = Inl e"
  by (cases rs) simp_all

lemma and_also_Inr: "and_also b (Inr c) = Inr (b \<and> c)"
  by (simp add: and_also_def)

lemma bind_where_clauses:
  assumes "case name_like f of None \<Rightarrow> True | Some n \<Rightarrow> utf8_length n \<le> 49998"
  shows "bind_conds (map fst (where_clauses f)) (map snd (where_clauses f)) =
     Some (\<lambda>r. Inr ((case name_like f of
                 None \<Rightarrow> True
               | Some n \<Rightarrow>
                   n = [] \<or> pattern_compare (c_string (''%'' @ n @ ''%'')) (c_string (name r))) \<and>
            (case category_is f of
                 None \<Rightarrow> True
               | Some c \<Rightarrow> c = [] \<or> category r = c) \<and>
            (case min_price f of None \<Rightarrow> True | Some p \<Rightarrow> js_ge (price r) p) \<and>
            (case max_price f of None \<Rightarrow> True | Some p \<Rightarrow> js_le (price r) p)))"
proof -
  have name_test: "like (CHR ''%'' # n @ ''%'') t =
      Inr (pattern_compare (c_string (CHR ''%'' # n @ ''%'')) (c_string t))"
    if "name_like f = Some n" for n t
    using assms that like_within [of n t] by simp
  show ?thesis
    by (cases "name_like f"; cases "category_is f"; cases "min_price f"; cases "max_price f")
      (simp_all add: where_clauses_def name_test and_also_Inr)
qed

lemma select_where_all:
  assumes "bind_conds cs ps = Some (\<lambda>r. Inr (Q r))" "length ps = length cs"
  shows "select_where rs cs False False ps = Inr (order_by_created_desc (filter Q rs))"
  using assms by (simp add: select_where_def scan_filter apply_limit_def apply_offset_def)

lemma findAll_without_paging:
  assumes "limit f = None" "offset f = None"
    and "case name_like f of None \<Rightarrow> True | Some n \<Rightarrow> utf8_length n \<le> 49998"
  shows "fst (findAll d f) =
     Inr (map js_row (order_by_created_desc (filter
       (\<lambda>r. (case name_like f of
                 None \<Rightarrow> True
               | Some n \<Rightarrow>
                   n = [] \<or> pattern_compare (c_string (''%'' @ n @ ''%'')) (c_string (name r))) \<and>
            (case category_is f of
                 None \<Rightarrow> True
               | Some c \<Rightarrow> c = [] \<or> category r = c) \<and>
            (case min_price f of None \<Rightarrow> True | Some p \<Rightarrow> js_ge (price r) p) \<and>
            (case max_price f of None \<Rightarrow> True | Some p \<Rightarrow> js_le (price r) p))
       (rows d))))"
proof -
  define cs where "cs = map fst (where_clauses f)"
  define ps where "ps = map snd (where_clauses f)"
  define sql where "sql = ''SELECT * FROM resources WHERE 1=1'' @ concat (map cond_text cs) @
        '' ORDER BY created_at DESC''"
  have query: "findAll_query f = (sql, ps)"
    unfolding sql_def cs_def ps_def by (rule findAll_query_where [OF assms(1,2)])
  have parse: "parse_sql sql = Some (SelectWhere cs False False)"
    unfolding sql_def by (rule parse_select_where)
  have len: "length ps = length cs"
    by (simp add: cs_def ps_def)
  have bind: "bind_conds cs ps =
     Some (\<lambda>r. Inr ((case name_like f of
                 None \<Rightarrow> True
               | Some n \<Rightarrow>
                   n = [] \<or> pattern_compare (c_string (''%'' @ n @ ''%'')) (c_string (name r))) \<and>
            (case category_is f of
                 None \<Rightarrow> True
               | Some c \<Rightarrow> c = [] \<or> category r = c) \<and>
            (case min_price f of None \<Rightarrow> True | Some p \<Rightarrow> js_ge (price r) p) \<and>
            (case max_price f of None \<Rightarrow> True | Some p \<Rightarrow> js_le (price r) p)))"
    unfolding cs_def ps_def by (rule bind_where_clauses [OF assms(3)])
  show ?thesis
    by (simp add: findAll_def query allQuery_def exec_def parse select_where_all [OF bind len])
qed

lemma findAll_pattern_too_long:
  assumes "49998 < utf8_length s" "rows d \<noteq> []"
  shows "fst (findAll d (no_filters\<lparr>name_like := Some s\<rparr>)) =
     Inl (Error ''SQLITE_ERROR: LIKE or GLOB pattern too complex'')"
proof -
  define f where "f = no_filters\<lparr>name_like := Some s\<rparr>"
  define p where "p = ''%'' @ s @ ''%''"
  define sql where "sql = ''SELECT * FROM resources WHERE 1=1'' @
        concat (map cond_text [NameLike]) @ '' ORDER BY created_at DESC''"
  have "s \<noteq> []"
    using assms(1) by (auto simp: utf8_length_def)
  then have wc: "where_clauses f = [(NameLike, PText p)]"
    by (simp add: where_clauses_def f_def p_def no_filters_def)
  have "findAll_query f =
     (''SELECT * FROM resources WHERE 1=1'' @ concat (map cond_text (map fst (where_clauses f))) @
        '' ORDER BY created_at DESC'',
      map snd (where_clauses f))"
    by (rule findAll_query_where) (simp_all add: f_def no_filters_def)
  then have query: "findAll_query f = (sql, [PText p])"
    unfolding wc sql_def by simp
  have parse: "parse_sql sql = Some (SelectWhere [NameLike] False False)"
    unfolding sql_def by (rule parse_select_where)
  have test: "like p t = Inl (Error ''SQLITE_ERROR: LIKE or GLOB pattern too complex'')" for t
    unfolding p_def by (rule like_too_long [OF assms(1)])
  have "select_where (rows d) [NameLike] False False [PText p] =
     Inl (Error ''SQLITE_ERROR: LIKE or GLOB pattern too complex'')"
    using scan_error [OF assms(2)] by (simp add: select_where_def test)
  then show ?thesis
    unfolding f_def [symmetric]
    by (simp add: findAll_def query allQuery_def exec_def parse)
qed

lemma pattern_compare_any: "pattern_compare ''%%'' t"
  using pattern_compare_percent [of "''%''" t] pattern_compare_only_percent by auto

lemma c_string_plain: "CHR 0x00 \<notin> set s \<Longrightarrow> c_string (s @ t) = s @ c_string t"
  by (induction s) (auto simp: c_string_def)

lemma c_string_pattern:
  "CHR 0x00 \<notin> set s \<Longrightarrow> c_string (''%'' @ s @ ''%'') = ''%'' @ s @ ''%''"
proof -
  assume s: "CHR 0x00 \<notin> set s"
  have "c_string (''%'' @ (s @ ''%'')) = ''%'' @ c_string (s @ ''%'')"
    by (rule c_string_plain) simp
  also have "c_string (s @ ''%'') = s @ c_string ''%''"
    by (rule c_string_plain [OF s])
  also have "c_string ''%'' = ''%''"
    by (simp add: c_string_def)
  finally show ?thesis .
qed

text \<open>
  C6 (amended). For every name filter \<open>s\<close> of at most 49998 bytes, \<open>findAll({name: s})\<close>
  returns exactly the resources whose name matches the pattern \<open>%s%\<close> under SQLite's
  \<open>LIKE\<close>, newest first: pattern and name are read up to their first NUL character. When
  \<open>s\<close> holds none of \<open>%\<close>, \<open>_\<close> and NUL these are the resources whose name, read up to its
  first NUL character, contains \<open>s\<close> as a substring with ASCII letters compared regardless
  of case. For a longer \<open>s\<close> (the pattern is then above 50000 bytes; up to the 10^9 bytes
  the engine accepts in a bound string) \<open>findAll\<close> fails on a table that holds a row.
  Without paging, a category filter selects the rows whose category equals it exactly and
  the price filters bound the price inclusively from below and above.
\<close>

theorem findAll_name_filter_is_like:
  "(utf8_length s \<le> 49998 \<longrightarrow>
      fst (findAll d (no_filters\<lparr>name_like := Some s\<rparr>)) =
        Inr (map js_row (order_by_created_desc
          (filter (\<lambda>r. pattern_compare (c_string (''%'' @ s @ ''%'')) (c_string (name r)))
             (rows d))))) \<and>
   (utf8_length s \<le> 49998 \<and> CHR ''%'' \<notin> set s \<and> CHR ''_'' \<notin> set s \<and> CHR 0x00 \<notin> set s \<longrightarrow>
      fst (findAll d (no_filters\<lparr>name_like := Some s\<rparr>)) =
        Inr (map js_row (order_by_created_desc
          (filter (\<lambda>r. str_includes (map ascii_lower (c_string (name r))) (map ascii_lower s))
             (rows d))))) \<and>
   (49998 < utf8_length s \<and> utf8_length s \<le> 999999998 \<and> rows d \<noteq> [] \<longrightarrow>
      fst (findAll d (no_filters\<lparr>name_like := Some s\<rparr>)) =
        Inl (Error ''SQLITE_ERROR: LIKE or GLOB pattern too complex'')) \<and>
   (limit f = None \<and> offset f = None \<and>
    (case name_like f of None \<Rightarrow> True | Some n \<Rightarrow> utf8_length n \<le> 49998) \<and>
    (case category_is f of None \<Rightarrow> True | Some c \<Rightarrow> utf8_length c \<le> 1000000000) \<longrightarrow>
      fst (findAll d f) =
        Inr (map js_row (order_by_created_desc (filter
          (\<lambda>r. (case name_like f of
                    None \<Rightarrow> True
                  | Some n \<Rightarrow>
                      n = [] \<or>
                      pattern_compare (c_string (''%'' @ n @ ''%'')) (c_string (name r))) \<and>
               (case category_is f of
                    None \<Rightarrow> True
                  | Some c \<Rightarrow> c = [] \<or> category r = c) \<and>
               (case min_price f of None \<Rightarrow> True | Some p \<Rightarrow> js_ge (price r) p) \<and>
               (case max_price f of None \<Rightarrow> True | Some p \<Rightarrow> js_le (price r) p))
          (rows d)))))"
proof -
  define p where "p = c_string (''%'' @ s @ ''%'')"
  have by_name: "fst (findAll d (no_filters\<lparr>name_like := Some s\<rparr>)) =
     Inr (map js_row (order_by_created_desc
       (filter (\<lambda>r. pattern_compare p (c_string (name r))) (rows d))))"
    if short: "utf8_length s \<le> 49998"
  proof -
    have "s = [] \<Longrightarrow> pattern_compare p t" for t
      using pattern_compare_any [of t] by (simp add: p_def c_string_def)
    then have pred: "filter (\<lambda>r. s = [] \<or> pattern_compare p (c_string (name r))) (rows d) =
        filter (\<lambda>r. pattern_compare p (c_string (name r))) (rows d)"
      by (intro filter_cong) auto
    have "fst (findAll d (no_filters\<lparr>name_like := Some s\<rparr>)) =
       Inr (map js_row (order_by_created_desc
         (filter (\<lambda>r. s = [] \<or> pattern_compare p (c_string (name r))) (rows d))))"
      using findAll_without_paging [of "no_filters\<lparr>name_like := Some s\<rparr>" d] short
      unfolding p_def by (simp add: no_filters_def del: append.simps)
    then show ?thesis
      unfolding pred .
  qed
  have substring: "fst (findAll d (no_filters\<lparr>name_like := Some s\<rparr>)) =
     Inr (map js_row (order_by_created_desc
       (filter (\<lambda>r. str_includes (map ascii_lower (c_string (name r))) (map ascii_lower s))
          (rows d))))"
    if short: "utf8_length s \<le> 49998"
      and plain: "CHR ''%'' \<notin> set s" "CHR ''_'' \<notin> set s" "CHR 0x00 \<notin> set s"
  proof -
    have "p = ''%'' @ s @ ''%''"
      unfolding p_def by (rule c_string_pattern [OF plain(3)])
    then have "pattern_compare p t = str_includes (map ascii_lower t) (map ascii_lower s)" for t
      using pattern_compare_contains [OF plain(1,2), of t] by simp
    then show ?thesis
      using by_name [OF short] by simp
  qed
  have too_long: "fst (findAll d (no_filters\<lparr>name_like := Some s\<rparr>)) =
        Inl (Error ''SQLITE_ERROR: LIKE or GLOB pattern too complex'')"
    if "49998 < utf8_length s" "rows d \<noteq> []"
    using that by (rule findAll_pattern_too_long)
  from by_name substring too_long findAll_without_paging [of f d] show ?thesis
    unfolding p_def by blast
qed

lemma pattern_compare_laptop: "pattern_compare ''%laptop%'' ''Laptop''"
  by (simp add: ascii_lower_def)

text \<open>
  C6 as stated fails: the filter \<open>laptop\<close> returns the resource named \<open>Laptop\<close>, whose
  name does not contain \<open>laptop\<close> as a case-sensitive substring.
\<close>

theorem findAll_name_filter_not_case_sensitive:
  "fst (findAll example_database (no_filters\<lparr>name_like := Some ''laptop''\<rparr>)) =
     Inr [ResourceRow laptop] \<and>
   name laptop = ''Laptop'' \<and> \<not> str_includes ''Laptop'' ''laptop''"
proof -
  have "fst (findAll example_database (no_filters\<lparr>name_like := Some ''laptop''\<rparr>)) =
      Inr [js_row laptop]"
    using findAll_without_paging [of "no_filters\<lparr>name_like := Some ''laptop''\<rparr>" example_database]
      pattern_compare_laptop
    by (simp add: no_filters_def example_database_def order_by_created_desc_def
        utf8_length_def c_string_def laptop_def)
  then show ?thesis
    by (simp add: js_row_laptop) (simp add: laptop_def)
qed

lemma utf8_length_replicate_a: "utf8_length (replicate n CHR ''a'') = n"
  by (simp add: utf8_length_def sum_list_replicate)

theorem findAll_name_filter_is_like_witness:
  "fst (findAll example_database (no_filters\<lparr>name_like := Some ''APT''\<rparr>)) =
     Inr [ResourceRow laptop] \<and>
   fst (findAll example_database (no_filters\<lparr>name_like := Some ''desk''\<rparr>)) = Inr [] \<and>
   fst (findAll example_database
          (no_filters\<lparr>name_like := Some (replicate 49999 CHR ''a'')\<rparr>)) =
     Inl (Error ''SQLITE_ERROR: LIKE or GLOB pattern too complex'') \<and>
   fst (findAll example_database (no_filters\<lparr>category_is := Some ''electronics''\<rparr>)) = Inr [] \<and>
   fst (findAll example_database
          (no_filters\<lparr>min_price := Some (Fin 100), max_price := Some (Fin 999.99)\<rparr>)) =
     Inr [ResourceRow laptop]"
proof -
  have apt: "fst (findAll example_database (no_filters\<lparr>name_like := Some ''APT''\<rparr>)) =
      Inr [js_row laptop] \<and>
    fst (findAll example_database (no_filters\<lparr>category_is := Some ''electronics''\<rparr>)) = Inr []"
    using findAll_name_filter_is_like [of "''APT''" example_database
        "no_filters\<lparr>category_is := Some ''electronics''\<rparr>"]
    by (simp add: no_filters_def example_database_def order_by_created_desc_def
        utf8_length_def c_string_def laptop_def ascii_lower_def)
  have desk: "fst (findAll example_database (no_filters\<lparr>name_like := Some ''desk''\<rparr>)) = Inr [] \<and>
    fst (findAll example_database
          (no_filters\<lparr>min_price := Some (Fin 100), max_price := Some (Fin 999.99)\<rparr>)) =
      Inr [js_row laptop]"
    using findAll_name_filter_is_like [of "''desk''" example_database
        "no_filters\<lparr>min_price := Some (Fin 100), max_price := Some (Fin 999.99)\<rparr>"]
    by (simp add: no_filters_def example_database_def order_by_created_desc_def
        utf8_length_def c_string_def laptop_def ascii_lower_def js_ge_def js_le_def)
  have long: "fst (findAll example_database
          (no_filters\<lparr>name_like := Some (replicate 49999 CHR ''a'')\<rparr>)) =
     Inl (Error ''SQLITE_ERROR: LIKE or GLOB pattern too complex'')"
    using findAll_name_filter_is_like [of "replicate 49999 CHR ''a''" example_database no_filters]
    by (simp add: utf8_length_replicate_a example_database_def)
  from apt desk long show ?thesis
    by (simp add: js_row_laptop)
qed

subsection \<open>Identifiers assigned by \<open>create\<close>\<close>

lemma fold_max_bounded: "list_all (\<lambda>x. x \<le> (m::int)) xs \<Longrightarrow> fold max xs m = m"
  by (induction xs) (simp_all add: max_def)

lemma largest_rowid_bounded: "ids_bounded d \<Longrightarrow> largest_rowid d = sqlite_sequence d"
  unfolding largest_rowid_def ids_bounded_def
  by (rule fold_max_bounded) (simp add: list_all_iff)

lemma insert_row_ok:
  assumes "ids_bounded d" "insert_row d input = (Inr k, d')"
  shows "last_insert_rowid d' = sqlite_sequence d + 1 \<and> sqlite_sequence d' = sqlite_sequence d + 1 \<and>
    ids_bounded d'"
proof -
  have big: "largest_rowid d = sqlite_sequence d"
    by (rule largest_rowid_bounded [OF assms(1)])
  have old: "id' r \<le> sqlite_sequence d + 1" if "r \<in> set (rows d)" for r
    using assms(1) that by (fastforce simp: ids_bounded_def list_all_iff)
  show ?thesis
    using assms(2) big old
    by (auto simp: insert_row_def Let_def ids_bounded_def list_all_iff
        split: option.splits if_splits)
qed

lemma insert_row_error:
  "insert_row d input = (Inl e, d') \<Longrightarrow> d' = d"
  by (auto simp: insert_row_def Let_def split: option.splits if_splits)

lemma assign_id: "assign c p r = Some r' \<Longrightarrow> id' r' = id' r"
  by (cases "(c, p, r)" rule: assign.cases) auto

lemma assign_all_id: "assign_all cols vals r = Some r' \<Longrightarrow> id' r' = id' r"
proof (induction cols vals r rule: assign_all.induct)
  case (2 c cs p ps r)
  then show ?case
    by (auto split: option.splits dest: assign_id)
qed simp_all

lemma update_row_id: "update_row cols vals t r = Inr r' \<Longrightarrow> id' r' = id' r"
  by (auto simp: update_row_def split: option.splits dest: assign_all_id)

lemma update_rows_ids:
  "update_rows (update_row cols vals t) P rs = Inr rs' \<Longrightarrow> map id' rs' = map id' rs"
proof (induction rs arbitrary: rs')
  case Nil
  then show ?case by simp
next
  case (Cons r rs)
  then show ?case
    by (auto split: if_splits sum.splits dest: update_row_id)
qed

lemma ids_bounded_cong:
  "map id' (rows d') = map id' (rows d) \<Longrightarrow> sqlite_sequence d' = sqlite_sequence d \<Longrightarrow>
   ids_bounded d' = ids_bounded d"
proof -
  assume a: "map id' (rows d') = map id' (rows d)" "sqlite_sequence d' = sqlite_sequence d"
  have "ids_bounded x = list_all (\<lambda>i. i \<le> sqlite_sequence x) (map id' (rows x))" for x
    by (simp add: ids_bounded_def list_all_iff)
  with a show ?thesis by simp
qed

text \<open>
  No statement lowers the \<open>sqlite_sequence\<close> entry or raises it by more than one, and
  none breaks the invariant.
\<close>

lemma run_stmt_keeps:
  assumes "ids_bounded d" "run_stmt d st ps = (res, d')"
  shows "ids_bounded d' \<and> sqlite_sequence d \<le> sqlite_sequence d' \<and>
    sqlite_sequence d' \<le> sqlite_sequence d + 1"
proof (cases st)
  case InsertResource
  show ?thesis
  proof (cases "\<exists>n de c p q. ps = [PText n, PText de, PText c, PNum p, PNum q]")
    case True
    then obtain n de c p q where ps: "ps = [PText n, PText de, PText c, PNum p, PNum q]"
      by blast
    obtain r dd where ir: "insert_row d \<lparr>name = n, description = de, category = c,
        price = p, quantity = q\<rparr> = (r, dd)"
      by (cases "insert_row d \<lparr>name = n, description = de, category = c,
        price = p, quantity = q\<rparr>")
    show ?thesis
    proof (cases r)
      case (Inl e)
      then have "d' = d"
        using assms(2) InsertResource ps ir insert_row_error [of d _ e dd] by auto
      then show ?thesis using assms(1) by simp
    next
      case (Inr k)
      then have "d' = dd"
        using assms(2) InsertResource ps ir by auto
      then show ?thesis
        using insert_row_ok [OF assms(1)] ir Inr by auto
    qed
  next
    case False
    then have "run_stmt d InsertResource ps = (Inl unsupported, d)"
      by (cases "(d, InsertResource, ps)" rule: run_stmt.cases) auto
    then show ?thesis
      using assms InsertResource by simp
  qed
next
  case SelectLastInsertRowid
  then have "d' = d"
    using assms(2) by (cases "(d, st, ps)" rule: run_stmt.cases) auto
  then show ?thesis using assms(1) by simp
next
  case (SelectWhere cs l k)
  then have "d' = d"
    using assms(2) by (auto split: sum.splits)
  then show ?thesis using assms(1) by simp
next
  case SelectById
  then have "d' = d"
    using assms(2) by (cases "(d, st, ps)" rule: run_stmt.cases) auto
  then show ?thesis using assms(1) by simp
next
  case (UpdateById cols)
  then have "map id' (rows d') = map id' (rows d) \<and> sqlite_sequence d' = sqlite_sequence d"
    using assms(2)
    by (auto split: list.splits param.splits sum.splits dest: update_rows_ids)
  then show ?thesis
    using assms(1) ids_bounded_cong [of d' d] by simp
next
  case DeleteById
  show ?thesis
  proof (cases "\<exists>n. ps = [PNum n]")
    case True
    then obtain n where "ps = [PNum n]" by blast
    then have "d' = d\<lparr>rows := filter (\<lambda>r. \<not> has_id n r) (rows d)\<rparr>"
      using assms(2) DeleteById by auto
    then show ?thesis
      using assms(1) by (auto simp: ids_bounded_def list_all_iff)
  next
    case False
    then have "run_stmt d DeleteById ps = (Inl unsupported, d)"
      by (cases "(d, DeleteById, ps)" rule: run_stmt.cases) auto
    then show ?thesis
      using assms DeleteById by simp
  qed
qed

lemma exec_keeps:
  assumes "ids_bounded d" "exec d sql ps = (res, d')"
  shows "ids_bounded d' \<and> sqlite_sequence d \<le> sqlite_sequence d' \<and>
    sqlite_sequence d' \<le> sqlite_sequence d + 1"
proof -
  define d1 where "d1 = d\<lparr>executed := executed d @ [(sql, ps)]\<rparr>"
  have b1: "ids_bounded d1" "sqlite_sequence d1 = sqlite_sequence d"
    using assms(1) by (simp_all add: d1_def ids_bounded_def)
  show ?thesis
  proof (cases "parse_sql sql")
    case None
    then have "d' = d1"
      using assms(2) by (simp add: exec_def d1_def)
    then show ?thesis using b1 by simp
  next
    case (Some st)
    then have "run_stmt d1 st ps = (res, d')"
      using assms(2) by (simp add: exec_def d1_def)
    from run_stmt_keeps [OF b1(1) this] b1(2) show ?thesis by simp
  qed
qed

lemma runQuery_keeps:
  assumes "ids_bounded d" "runQuery d sql ps = (res, d')"
  shows "ids_bounded d' \<and> sqlite_sequence d \<le> sqlite_sequence d' \<and>
    sqlite_sequence d' \<le> sqlite_sequence d + 1"
proof -
  obtain r dd where e: "exec d sql ps = (r, dd)"
    by (cases "exec d sql ps")
  then have "d' = dd"
    using assms(2) by (cases r) (auto simp: runQuery_def)
  with exec_keeps [OF assms(1) e] show ?thesis by simp
qed

text \<open>
  \<open>create\<close> in one step: the insert, then the rowid of the new row read into a number.
\<close>

lemma create_eq:
  "create d input =
     (case insert_row
             (d\<lparr>executed := executed d @
                [(insert_sql,
                  [PText (name input), PText (description input), PText (category input),
                   PNum (price input), PNum (quantity input)])]\<rparr>) input of
        (Inl e, d1) \<Rightarrow> (Inl e, d1)
      | (Inr k, d1) \<Rightarrow>
          (Inr (nearest_double (last_insert_rowid d1)),
           d1\<lparr>executed := executed d1 @ [(''SELECT last_insert_rowid() as id'', [])]\<rparr>))"
proof -
  have whole: "\<lparr>name = name input, description = description input,
      category = category input, price = price input, quantity = quantity input\<rparr> = input"
    by (cases input) simp
  define d0 where "d0 = d\<lparr>executed := executed d @
                [(insert_sql,
                  [PText (name input), PText (description input), PText (category input),
                   PNum (price input), PNum (quantity input)])]\<rparr>"
  obtain r d1 where ir: "insert_row d0 input = (r, d1)"
    by (cases "insert_row d0 input")
  have "create d input =
     (case r of
        Inl e \<Rightarrow> (Inl e, d1)
      | Inr k \<Rightarrow>
          (Inr (nearest_double (last_insert_rowid d1)),
           d1\<lparr>executed := executed d1 @ [(''SELECT last_insert_rowid() as id'', [])]\<rparr>))"
    using ir unfolding d0_def
    by (cases r)
      (simp_all add: create_def runQuery_def getQuery_def exec_def parse_insert
        parse_last_rowid Let_def whole)
  then show ?thesis
    using ir unfolding d0_def by (cases r) simp_all
qed

lemma create_ok:
  assumes "ids_bounded d" "create d input = (Inr i, d')"
  shows "i = nearest_double (sqlite_sequence d + 1) \<and>
    sqlite_sequence d' = sqlite_sequence d + 1 \<and> ids_bounded d'"
proof -
  define d0 where "d0 = d\<lparr>executed := executed d @
                [(insert_sql,
                  [PText (name input), PText (description input), PText (category input),
                   PNum (price input), PNum (quantity input)])]\<rparr>"
  have b0: "ids_bounded d0" "sqlite_sequence d0 = sqlite_sequence d"
    using assms(1) by (simp_all add: d0_def ids_bounded_def)
  obtain r d1 where ir: "insert_row d0 input = (r, d1)"
    by (cases "insert_row d0 input")
  from assms(2) ir obtain k where k: "r = Inr k"
    unfolding create_eq d0_def [symmetric] by (cases r) auto
  then have res: "i = nearest_double (last_insert_rowid d1)"
    "d' = d1\<lparr>executed := executed d1 @ [(''SELECT last_insert_rowid() as id'', [])]\<rparr>"
    using assms(2) ir unfolding create_eq d0_def [symmetric] by auto
  from insert_row_ok [OF b0(1)] ir k
  have "last_insert_rowid d1 = sqlite_sequence d0 + 1" "sqlite_sequence d1 = sqlite_sequence d0 + 1"
    "ids_bounded d1"
    by auto
  with res b0(2) show ?thesis
    by (simp add: ids_bounded_def)
qed

lemma create_failed:
  assumes "ids_bounded d" "create d input = (Inl e, d')"
  shows "sqlite_sequence d' = sqlite_sequence d \<and> ids_bounded d'"
proof -
  define d0 where "d0 = d\<lparr>executed := executed d @
                [(insert_sql,
                  [PText (name input), PText (description input), PText (category input),
                   PNum (price input), PNum (quantity input)])]\<rparr>"
  have b0: "ids_bounded d0" "sqlite_sequence d0 = sqlite_sequence d"
    using assms(1) by (simp_all add: d0_def ids_bounded_def)
  obtain r d1 where ir: "insert_row d0 input = (r, d1)"
    by (cases "insert_row d0 input")
  from assms(2) ir have "r = Inl e" "d' = d1"
    unfolding create_eq d0_def [symmetric] by (cases r; auto)+
  with ir insert_row_error [of d0 input e d1] b0 show ?thesis
    by simp
qed

lemma call_step:
  assumes "ids_bounded d" "call d c = (r, d')"
  shows "ids_bounded d' \<and> sqlite_sequence d \<le> sqlite_sequence d' \<and>
    sqlite_sequence d' \<le> sqlite_sequence d + 1 \<and>
    (\<forall>i. r = Some i \<longrightarrow> i = nearest_double (sqlite_sequence d + 1) \<and>
       sqlite_sequence d' = sqlite_sequence d + 1)"
proof (cases c)
  case (Create input)
  obtain res dd where cr: "create d input = (res, dd)"
    by (cases "create d input")
  show ?thesis
  proof (cases res)
    case (Inl e)
    with assms(2) Create cr have rd: "r = None" "d' = dd" by auto
    from cr Inl have "create d input = (Inl e, dd)" by simp
    from create_failed [OF assms(1) this]
    have "sqlite_sequence dd = sqlite_sequence d" "ids_bounded dd"
      by simp_all
    with rd show ?thesis by simp
  next
    case (Inr i)
    with assms(2) Create cr have rd: "r = Some i" "d' = dd" by auto
    from cr Inr have "create d input = (Inr i, dd)" by simp
    from create_ok [OF assms(1) this]
    have "i = nearest_double (sqlite_sequence d + 1)" "sqlite_sequence dd = sqlite_sequence d + 1"
      "ids_bounded dd"
      by simp_all
    with rd show ?thesis by simp
  qed
next
  case (Update i u)
  then have r: "r = None" "d' = snd (update d i u)"
    using assms(2) by auto
  obtain flds vals where fv: "update_fields u = (flds, vals)"
    by (cases "update_fields u")
  show ?thesis
  proof (cases "flds = []")
    case True
    then have "d' = d"
      using r fv by (simp add: update_def)
    then show ?thesis using assms(1) r by simp
  next
    case False
    obtain res dd where rq: "runQuery d (update_sql flds) (vals @ [id_param i]) = (res, dd)"
      by (cases "runQuery d (update_sql flds) (vals @ [id_param i])")
    then have "d' = dd"
      using r fv False by (cases res) (simp_all add: update_def)
    with runQuery_keeps [OF assms(1) rq] r show ?thesis by simp
  qed
next
  case (Delete i)
  then have r: "r = None" "d' = snd (delete d i)"
    using assms(2) by auto
  obtain res dd where rq: "runQuery d ''DELETE FROM resources WHERE id = ?'' [id_param i] = (res, dd)"
    by (cases "runQuery d ''DELETE FROM resources WHERE id = ?'' [id_param i]")
  then have "d' = dd"
    using r by (cases res) (simp_all add: delete_def)
  with runQuery_keeps [OF assms(1) rq] r show ?thesis by simp
next
  case (Wait n)
  then show ?thesis
    using assms by (auto simp: ids_bounded_def)
qed

lemma calls_ids:
  "ids_bounded d \<Longrightarrow> 0 \<le> sqlite_sequence d \<Longrightarrow>
   sqlite_sequence d + int (length cs) < 2 ^ 53 \<Longrightarrow> calls d cs = (ids, d') \<Longrightarrow>
   sorted_wrt (<) ids \<and> (\<forall>i\<in>set ids. sqlite_sequence d < i) \<and> ids_bounded d' \<and>
   sqlite_sequence d \<le> sqlite_sequence d'"
proof (induction cs arbitrary: d ids d')
  case Nil
  then show ?case by simp
next
  case (Cons c cs)
  obtain r d1 where c1: "call d c = (r, d1)"
    by (cases "call d c")
  obtain ids1 d2 where c2: "calls d1 cs = (ids1, d2)"
    by (cases "calls d1 cs")
  from call_step [OF Cons.prems(1) c1]
  have s1: "ids_bounded d1" "sqlite_sequence d \<le> sqlite_sequence d1"
    "sqlite_sequence d1 \<le> sqlite_sequence d + 1"
    "\<And>i. r = Some i \<Longrightarrow> i = nearest_double (sqlite_sequence d + 1) \<and>
       sqlite_sequence d1 = sqlite_sequence d + 1"
    by auto
  have pos: "0 \<le> sqlite_sequence d1"
    using s1(2) Cons.prems(2) by simp
  have room: "sqlite_sequence d1 + int (length cs) < 2 ^ 53"
    using s1(3) Cons.prems(3) by simp
  from Cons.IH [OF s1(1) pos room c2]
  have s2: "sorted_wrt (<) ids1" "\<forall>i\<in>set ids1. sqlite_sequence d1 < i" "ids_bounded d2"
    "sqlite_sequence d1 \<le> sqlite_sequence d2"
    by auto
  have ids: "ids = (case r of None \<Rightarrow> [] | Some i \<Rightarrow> [i]) @ ids1" "d' = d2"
    using Cons.prems(4) c1 c2 by auto
  show ?case
  proof (cases r)
    case None
    with ids s1 s2 show ?thesis by fastforce
  next
    case (Some i)
    have "\<bar>sqlite_sequence d + 1\<bar> < 2 ^ 53"
      using Cons.prems(2,3) by simp
    then have "nearest_double (sqlite_sequence d + 1) = sqlite_sequence d + 1"
      by (rule nearest_double_exact)
    with Some s1(4) have i: "i = sqlite_sequence d + 1" "sqlite_sequence d1 = i" by auto
    with ids Some s1 s2 show ?thesis by fastforce
  qed
qed

lemma nearest_double_sign: "x \<le> 0 \<Longrightarrow> nearest_double x \<le> 0"
  by (simp add: nearest_double_def round_nat_def)

text \<open>
  C8 (amended). From a fresh database, and from any database in which no rowid exceeds
  the \<open>sqlite_sequence\<close> entry, every sequence of repository calls run one after the other
  that keeps the identifiers below \<open>2^53\<close> yields identifiers from its successful \<open>create\<close>
  calls that are strictly increasing, each above every identifier assigned before and
  not the id of any row present at the start, neither as stored nor as a client reads it;
  deleting rows in between does not free an identifier.
\<close>

theorem created_ids_strictly_increasing:
  "ids_bounded (initial_database t) \<and> sqlite_sequence (initial_database t) = 0 \<and>
   (ids_bounded d \<and> 0 \<le> sqlite_sequence d \<and> sqlite_sequence d + int (length cs) < 2 ^ 53 \<longrightarrow>
      sorted_wrt (<) (fst (calls d cs)) \<and>
      (\<forall>i \<in> set (fst (calls d cs)).
         sqlite_sequence d < i \<and> i \<notin> id' ` set (rows d) \<and>
         i \<notin> row_id ` js_row ` set (rows d)) \<and>
      ids_bounded (snd (calls d cs)))"
proof -
  have init: "ids_bounded (initial_database t)" "sqlite_sequence (initial_database t) = 0"
    by (simp_all add: ids_bounded_def initial_database_def)
  have step: "sorted_wrt (<) (fst (calls d cs)) \<and>
      (\<forall>i \<in> set (fst (calls d cs)).
         sqlite_sequence d < i \<and> i \<notin> id' ` set (rows d) \<and>
         i \<notin> row_id ` js_row ` set (rows d)) \<and>
      ids_bounded (snd (calls d cs))"
    if b: "ids_bounded d" and pos: "0 \<le> sqlite_sequence d"
      and room: "sqlite_sequence d + int (length cs) < 2 ^ 53"
  proof -
    obtain ids d' where c: "calls d cs = (ids, d')"
      by (cases "calls d cs")
    from calls_ids [OF b pos room c]
    have s: "sorted_wrt (<) ids" "\<forall>i\<in>set ids. sqlite_sequence d < i" "ids_bounded d'"
      by auto
    have stored: "id' r \<le> sqlite_sequence d" if "r \<in> set (rows d)" for r
      using b that by (simp add: ids_bounded_def list_all_iff)
    have seen: "nearest_double (id' r) \<le> sqlite_sequence d" if r: "r \<in> set (rows d)" for r
    proof (cases "0 \<le> id' r")
      case True
      then have "\<bar>id' r\<bar> < 2 ^ 53"
        using stored [OF r] room by simp
      then show ?thesis
        using stored [OF r] by (simp add: nearest_double_exact)
    next
      case False
      then have "nearest_double (id' r) \<le> 0"
        by (intro nearest_double_sign) simp
      with pos show ?thesis by simp
    qed
    have "i \<notin> id' ` set (rows d) \<and> i \<notin> row_id ` js_row ` set (rows d)"
      if "sqlite_sequence d < i" for i
      using that stored seen by (fastforce simp: js_row_def)
    with s c show ?thesis by auto
  qed
  from init step show ?thesis by blast
qed

text \<open>
  C8 as stated fails once identifiers reach \<open>2^53\<close>, where a number no longer holds every
  integer. With a row of id \<open>2^53\<close> in the table, \<open>create\<close> stores its row under \<open>2^53 + 1\<close>
  and returns \<open>2^53\<close>, the identifier of the row already there; the fourth of four
  successive creates returns the identifier the third returned.
\<close>

theorem create_repeats_id_from_2_53:
  "ids_bounded big_database \<and>
   fst (create big_database new_laptop) = Inr 9007199254740992 \<and>
   map id' (rows big_database) = [9007199254740992] \<and>
   map id' (rows (snd (create big_database new_laptop))) =
     [9007199254740992, 9007199254740993] \<and>
   fst (calls big_database
          [Create new_laptop, Create new_laptop, Create new_laptop, Create new_laptop]) =
     [9007199254740992, 9007199254740994, 9007199254740996, 9007199254740996]"
  by (simp add: big_database_def ids_bounded_def create_eq insert_row_def check_row_def
      new_laptop_def laptop_def largest_rowid_def js_ge_def js_le_def Let_def
      nearest_double_def round_nat_def bitlen.simps)

theorem created_ids_strictly_increasing_witness:
  "fst (calls (initial_database 0) [Create new_laptop, Delete 1, Create new_laptop]) = [1, 2]"
  using created_ids_strictly_increasing [of 0 "initial_database 0"
      "[Create new_laptop, Delete 1, Create new_laptop]"]
  by (simp add: initial_database_def create_eq insert_row_def check_row_def new_laptop_def
      largest_rowid_def js_ge_def js_le_def delete_def runQuery_def exec_def parse_delete
      id_param_def has_id_def Let_def nearest_double_def round_nat_def)

end
